theory Spec2Isabelle
  imports Complex_Main "HOL-Library.Word" "HOL-Library.Sublist"
begin

section \<open>The scenario driver of \<open>src/main.cpp\<close>\<close>

text \<open>
  The program is one function, \<open>main\<close>, that orchestrates calls to the simulation SDK.
  The SDK itself is outside the repository, so the model takes it as a parameter: a record
  \<open>sdk\<close> that says, for every SDK call \<open>main\<close> makes, whether the call throws or what it
  returns. A run of \<open>main\<close> is the list of the observable events it produces (lines on
  stdout and stderr, SDK calls with their arguments, sleeps, handle releases) together
  with the way the process ends.

  Conventions of the model:
  \<^item> C++ \<open>float\<close> values are idealised as real numbers and the float operations as the
    exact operations on them; rounding is outside the model.
  \<^item> \<open>int\<close> is 32 bits wide, \<open>uint16_t\<close> is a \<open>16 word\<close>.
  \<^item> Every exception in flight is derived from \<open>std::exception\<close> (as those of
    \<open>std::stoi\<close> are), so the handler of \<open>main\<close> catches it.
  \<^item> Accessors that only read a local object (\<open>GetName\<close>, \<open>GetId\<close>,
    \<open>GetForwardVector\<close>, \<open>empty\<close>, \<open>operator[]\<close>) do not throw; every other SDK call
    may.
  \<^item> Transforms and handles are values. A blueprint is reached through a pointer into one
    of the two library objects of \<open>main\<close>, and the model follows the lifetime of these two
    objects; other object lifetimes are outside the model.
\<close>

subsection \<open>Data\<close>

text \<open>\<open>carla::geom::Vector3D\<close>; \<open>Location\<close> is derived from it.\<close>

record Vector3D =
  vec_x :: real
  vec_y :: real
  vec_z :: real

type_synonym Location = Vector3D

record Rotation =
  pitch :: real
  yaw :: real
  roll :: real

record Transform =
  location :: Location
  rotation :: Rotation

text \<open>
  \<open>cc::Vehicle::Control\<close>: the three fields that \<open>main\<close> writes. The remaining fields of
  the SDK's struct keep the values of its default constructor throughout.
\<close>

record Control =
  throttle :: real
  steer :: real
  brake :: real

datatype ActorBlueprint = ActorBlueprint (GetId: string)

text \<open>
  \<open>vehicle_bp\<close> is a pointer to a blueprint inside a library object. \<open>main\<close> has two library
  objects: the one of line 51, held by \<open>blueprint_library\<close>, into which \<open>Find\<close> points,
  and the one that \<open>Filter\<close> creates at line 58, held by the shared pointer \<open>vehicles\<close>
  alone, into which \<open>&(*vehicles)[0]\<close> points. A pointer is modelled by the object it
  points into and the blueprint stored there.
\<close>

datatype owner = owned_by_blueprint_library | owned_by_vehicles

datatype bp_pointer = Pointer (owner: owner) (pointee: ActorBlueprint)

text \<open>
  What \<open>*vehicle_bp\<close> denotes: a blueprint inside a library object that is alive, or what
  is left of a blueprint whose library object has been destroyed.
\<close>

datatype bp_reference = Alive ActorBlueprint | Destroyed ActorBlueprint

text \<open>
  Exceptions: the two that \<open>std::stoi\<close> throws, and an exception of the SDK with its
  message. \<open>what\<close> of the \<open>std::stoi\<close> exceptions is the one of libstdc++.
\<close>

datatype exception = invalid_argument | out_of_range | sdk_error string

fun what :: "exception \<Rightarrow> string" where
  "what invalid_argument = ''stoi''"
| "what out_of_range = ''stoi''"
| "what (sdk_error m) = m"

subsection \<open>The SDK as a parameter\<close>

text \<open>
  One field per SDK call of \<open>main\<close>: \<open>Inl e\<close> when the call throws \<open>e\<close>, \<open>Inr v\<close> when it
  returns \<open>v\<close>. The three calls of the control loop are indexed by the number of the call
  (\<open>ApplyControl sdk 50\<close> is the call after the loop). \<open>Find\<close> returns \<open>None\<close> for
  \<open>nullptr\<close>. \<open>SpawnActor\<close> takes the blueprint by reference and returns the id of the new
  actor; what it does with a reference to a destroyed blueprint is undefined in C++, and
  the model leaves it to this parameter like every other response (a crash of the
  process at that point is not among the outcomes of the model).
\<close>

record sdk =
  Client :: "string \<Rightarrow> 16 word \<Rightarrow> exception + unit"
  SetTimeout :: "nat \<Rightarrow> exception + unit"
  GetWorld :: "exception + unit"
  GetMap :: "exception + unit"
  GetName :: "string"
  GetBlueprintLibrary :: "exception + unit"
  Find :: "string \<Rightarrow> exception + ActorBlueprint option"
  Filter :: "string \<Rightarrow> exception + ActorBlueprint list"
  GetRecommendedSpawnPoints :: "exception + Transform list"
  SpawnActor :: "bp_reference \<Rightarrow> Transform \<Rightarrow> exception + nat"
  GetSpectator :: "exception + unit"
  GetTransform :: "exception + Transform"
  GetForwardVector :: "Transform \<Rightarrow> Vector3D"
  SetTransform :: "Transform \<Rightarrow> exception + unit"
  ApplyControl :: "nat \<Rightarrow> Control \<Rightarrow> exception + unit"
  GetLocation :: "nat \<Rightarrow> exception + Location"
  GetVelocity :: "nat \<Rightarrow> exception + Vector3D"

subsection \<open>Events and control flow\<close>

text \<open>
  The SDK calls as events. \<open>CallDestroy\<close> is the explicit server-side destruction of an
  actor, which the SDK offers and \<open>main\<close> mentions in a comment only.
\<close>

datatype call =
    CallClient string "16 word"
  | CallSetTimeout nat
  | CallGetWorld
  | CallGetMap
  | CallGetBlueprintLibrary
  | CallFind string
  | CallFilter string
  | CallGetRecommendedSpawnPoints
  | CallSpawnActor bp_reference Transform
  | CallGetSpectator
  | CallGetTransform
  | CallSetTransform Transform
  | CallApplyControl Control
  | CallGetLocation
  | CallGetVelocity
  | CallDestroy

text \<open>What is streamed into \<open>std::cout\<close> with \<open><<\<close>: a string, an unsigned integer, a float.\<close>

datatype item = Str string | Num nat | Flt real

datatype handle = vehicle_handle | actor_handle

text \<open>
  \<open>Stdout l\<close> is one statement \<open>std::cout << ... << std::endl\<close>, \<open>Stderr s\<close> one statement
  \<open>std::cerr << ... << std::endl\<close> (all its items are strings, \<open>s\<close> is their
  concatenation), \<open>Sleep ms\<close> a \<open>sleep_for\<close> of \<open>ms\<close> milliseconds, \<open>Reset h\<close> the
  \<open>reset()\<close> of a local shared pointer.
\<close>

datatype event =
    Stdout "item list"
  | Stderr string
  | Sdk call
  | Sleep nat
  | Reset handle

text \<open>The two ways the process ends: \<open>std::exit(n)\<close> and \<open>return n\<close> from \<open>main\<close>.\<close>

datatype outcome = Exited int | Returned int

fun status :: "outcome \<Rightarrow> int" where
  "status (Exited n) = n"
| "status (Returned n) = n"

text \<open>
  A piece of the body of \<open>main\<close> produces events and then either goes on with a value
  (\<open>Inr\<close>), or leaves the straight line (\<open>Inl\<close>): an exception is in flight, or the process
  ends.
\<close>

datatype stop = Throw exception | Stop outcome

type_synonym 'a exec = "event list \<times> (stop + 'a)"

definition ret :: "'a \<Rightarrow> 'a exec" where
  "ret a = ([], Inr a)"

definition bnd :: "'a exec \<Rightarrow> ('a \<Rightarrow> 'b exec) \<Rightarrow> 'b exec" where
  "bnd m f =
     (case m of
        (tr, Inl s) \<Rightarrow> (tr, Inl s)
      | (tr, Inr a) \<Rightarrow> (case f a of (tr', r) \<Rightarrow> (tr @ tr', r)))"

definition throw :: "exception \<Rightarrow> 'a exec" where
  "throw e = ([], Inl (Throw e))"

definition return_from_main :: "int \<Rightarrow> 'a exec" where
  "return_from_main n = ([], Inl (Stop (Returned n)))"

definition std_exit :: "int \<Rightarrow> 'a exec" where
  "std_exit n = ([], Inl (Stop (Exited n)))"

definition cout :: "item list \<Rightarrow> unit exec" where
  "cout l = ([Stdout l], Inr ())"

definition cerr :: "string \<Rightarrow> unit exec" where
  "cerr s = ([Stderr s], Inr ())"

definition sleep_for :: "nat \<Rightarrow> unit exec" where
  "sleep_for ms = ([Sleep ms], Inr ())"

definition reset :: "handle \<Rightarrow> unit exec" where
  "reset h = ([Reset h], Inr ())"

text \<open>An SDK call: the call is issued, then it throws or returns.\<close>

definition sdk_call :: "call \<Rightarrow> exception + 'a \<Rightarrow> 'a exec" where
  "sdk_call c r = ([Sdk c], (case r of Inl e \<Rightarrow> Inl (Throw e) | Inr v \<Rightarrow> Inr v))"

subsection \<open>\<open>std::stoi\<close> and the arguments (lines 25 to 33)\<close>

text \<open>
  \<open>std::stoi(str)\<close> with base 10, as \<open>strtol\<close> does it: white space is skipped, one sign is
  read if there is one, then the longest run of decimal digits; what follows is ignored.
  Without a digit it throws \<open>std::invalid_argument\<close>, with a value outside \<open>int\<close> it throws
  \<open>std::out_of_range\<close>.
\<close>

definition isspace :: "char \<Rightarrow> bool" where
  "isspace c = (c \<in> set [CHR '' '', CHR 0x09, CHR 0x0A, CHR 0x0B, CHR 0x0C, CHR 0x0D])"

definition isdigit :: "char \<Rightarrow> bool" where
  "isdigit c = (c \<in> set ''0123456789'')"

definition digit_val :: "char \<Rightarrow> int" where
  "digit_val c = of_char c - 48"

definition dec_value :: "string \<Rightarrow> int" where
  "dec_value ds = foldl (\<lambda>a c. 10 * a + digit_val c) 0 ds"

definition stoi :: "string \<Rightarrow> exception + int" where
  "stoi s =
     (let s1 = dropWhile isspace s;
          neg = (s1 \<noteq> [] \<and> hd s1 = CHR ''-'');
          s2 = (if s1 \<noteq> [] \<and> (hd s1 = CHR ''-'' \<or> hd s1 = CHR ''+'') then tl s1 else s1);
          ds = takeWhile isdigit s2;
          v = (if neg then - dec_value ds else dec_value ds)
      in if ds = [] then Inl invalid_argument
         else if v < - (2 ^ 31) \<or> 2 ^ 31 - 1 < v then Inl out_of_range
         else Inr v)"

text \<open>
  Lines 25 to 33: \<open>argv\<close> is the whole argument vector (\<open>argv[0]\<close> is the program), \<open>argc\<close>
  its length. The \<open>int\<close> that \<open>std::stoi\<close> returns is converted to \<open>uint16_t\<close> by the
  assignment, that is reduced modulo \<open>2^16\<close>.
\<close>

definition parse_args :: "string list \<Rightarrow> (string \<times> 16 word) exec" where
  "parse_args argv =
     (let host = (if length argv > 1 then argv ! 1 else ''localhost'')
      in if length argv > 2
         then (case stoi (argv ! 2) of
                 Inl e \<Rightarrow> throw e
               | Inr v \<Rightarrow> ret (host, word_of_int v))
         else ret (host, 2000))"

subsection \<open>The body of \<open>main\<close>, section by section\<close>

text \<open>Lines 35 to 51: the client, the world, the map and the blueprint library.\<close>

definition connect :: "sdk \<Rightarrow> string \<Rightarrow> 16 word \<Rightarrow> unit exec" where
  "connect s host port =
     bnd (cout [Str ''Connecting to CARLA server: '', Str host, Str '':'', Num (unat port)]) (\<lambda>_.
     bnd (sdk_call (CallClient host port) (Client s host port)) (\<lambda>_.
     bnd (sdk_call (CallSetTimeout 10) (SetTimeout s 10)) (\<lambda>_.
     bnd (cout [Str ''Getting world information...'']) (\<lambda>_.
     bnd (sdk_call CallGetWorld (GetWorld s)) (\<lambda>_.
     bnd (cout [Str ''Getting map name...'']) (\<lambda>_.
     bnd (sdk_call CallGetMap (GetMap s)) (\<lambda>_.
     bnd (cout [Str ''Connected to world: '', Str (GetName s)]) (\<lambda>_.
     bnd (cout [Str ''Getting blueprint library...'']) (\<lambda>_.
     sdk_call CallGetBlueprintLibrary (GetBlueprintLibrary s))))))))))"

text \<open>
  Lines 54 to 67: the vehicle blueprint. The result is the pointer \<open>vehicle_bp\<close> as it is
  after line 67: the pointer that \<open>Find\<close> returned, into the library of line 51, or the
  address of element 0 of the filtered library (line 63).
\<close>

definition find_vehicle_bp :: "sdk \<Rightarrow> bp_pointer exec" where
  "find_vehicle_bp s =
     bnd (cout [Str ''Finding vehicle blueprint...'']) (\<lambda>_.
     bnd (sdk_call (CallFind ''vehicle.tesla.model3'') (Find s ''vehicle.tesla.model3''))
       (\<lambda>vehicle_bp.
     case vehicle_bp of
       None \<Rightarrow>
         bnd (sdk_call (CallFilter ''vehicle.*'') (Filter s ''vehicle.*'')) (\<lambda>vehicles.
         case vehicles of
           [] \<Rightarrow>
             bnd (cerr ''Error: No vehicle blueprints found'') (\<lambda>_.
             return_from_main 1)
         | b # _ \<Rightarrow>
             bnd (cout [Str ''Using vehicle: '', Str (GetId b)]) (\<lambda>_.
             ret (Pointer owned_by_vehicles b)))
     | Some b \<Rightarrow>
         bnd (cout [Str ''Spawning Tesla Model 3'']) (\<lambda>_.
         ret (Pointer owned_by_blueprint_library b))))"

text \<open>Lines 70 to 82: the spawn point.\<close>

definition get_spawn_point :: "sdk \<Rightarrow> Transform exec" where
  "get_spawn_point s =
     bnd (cout [Str ''Getting spawn points...'']) (\<lambda>_.
     bnd (sdk_call CallGetRecommendedSpawnPoints (GetRecommendedSpawnPoints s))
       (\<lambda>spawn_points.
     case spawn_points of
       [] \<Rightarrow>
         bnd (cerr ''Error: No spawn points found'') (\<lambda>_.
         return_from_main 1)
     | spawn_point # _ \<Rightarrow>
         bnd (cout [Str ''Spawn point: ('',
                    Flt (vec_x (location spawn_point)), Str '', '',
                    Flt (vec_y (location spawn_point)), Str '', '',
                    Flt (vec_z (location spawn_point)), Str '')'']) (\<lambda>_.
         ret spawn_point)))"

text \<open>
  Line 86, \<open>*vehicle_bp\<close>. The library of line 51 is a variable of the \<open>try\<close> block and is
  alive. The filtered library of line 58 is not: \<open>vehicles\<close> is a variable of the block of
  lines 56 to 65, and where that block ends the shared pointer is destroyed and the
  library with it, so that a pointer into it dangles from line 65 on.
\<close>

fun dereference :: "bp_pointer \<Rightarrow> bp_reference" where
  "dereference (Pointer owned_by_blueprint_library b) = Alive b"
| "dereference (Pointer owned_by_vehicles b) = Destroyed b"

text \<open>Lines 85 to 92: the vehicle is spawned, then one second of sleep.\<close>

definition spawn_vehicle :: "sdk \<Rightarrow> bp_pointer \<Rightarrow> Transform \<Rightarrow> nat exec" where
  "spawn_vehicle s vehicle_bp spawn_point =
     bnd (cout [Str ''Spawning vehicle...'']) (\<lambda>_.
     bnd (sdk_call (CallSpawnActor (dereference vehicle_bp) spawn_point)
            (SpawnActor s (dereference vehicle_bp) spawn_point))
       (\<lambda>actor.
     bnd (cout [Str ''Casting vehicle...'']) (\<lambda>_.
     bnd (cout [Str ''Vehicle spawned (ID: '', Num actor, Str '')'']) (\<lambda>_.
     bnd (sleep_for 1000) (\<lambda>_.
     ret actor)))))"

text \<open>Lines 101 to 108: the transform of the spectator.\<close>

definition spectator_transform :: "Transform \<Rightarrow> Vector3D \<Rightarrow> Transform" where
  "spectator_transform vehicle_transform forward_vector =
     (let l0 = location vehicle_transform;
          l1 = l0\<lparr>vec_x := vec_x l0 - vec_x forward_vector * 7\<rparr>;
          l2 = l1\<lparr>vec_y := vec_y l1 - vec_y forward_vector * 7\<rparr>;
          spectator_location = l2\<lparr>vec_z := vec_z l2 + 3\<rparr>;
          r0 = rotation vehicle_transform;
          spectator_rotation = r0\<lparr>pitch := - 10\<rparr>
      in \<lparr>location = spectator_location, rotation = spectator_rotation\<rparr>)"

text \<open>Lines 95 to 111: the spectator is placed.\<close>

definition setup_spectator :: "sdk \<Rightarrow> unit exec" where
  "setup_spectator s =
     bnd (cout [Str (CHR 0x0A # ''Setting up spectator camera...'')]) (\<lambda>_.
     bnd (sdk_call CallGetSpectator (GetSpectator s)) (\<lambda>_.
     bnd (sdk_call CallGetTransform (GetTransform s)) (\<lambda>vehicle_transform.
     bnd (sdk_call
            (CallSetTransform
               (spectator_transform vehicle_transform (GetForwardVector s vehicle_transform)))
            (SetTransform s
               (spectator_transform vehicle_transform (GetForwardVector s vehicle_transform))))
       (\<lambda>_.
     cout [Str ''Spectator camera positioned behind vehicle'']))))"

text \<open>Lines 128 to 130: the speed in km/h.\<close>

definition speed_of :: "Vector3D \<Rightarrow> real" where
  "speed_of velocity =
     sqrt (vec_x velocity * vec_x velocity +
           vec_y velocity * vec_y velocity +
           vec_z velocity * vec_z velocity) * 3.6"

text \<open>Lines 123 to 136: the body of the loop, for the counter \<open>i\<close>.\<close>

definition tick :: "sdk \<Rightarrow> Control \<Rightarrow> nat \<Rightarrow> unit exec" where
  "tick s control i =
     bnd (sdk_call (CallApplyControl control) (ApplyControl s i control)) (\<lambda>_.
     bnd (sdk_call CallGetLocation (GetLocation s i)) (\<lambda>location.
     bnd (sdk_call CallGetVelocity (GetVelocity s i)) (\<lambda>velocity.
     bnd (cout [Str ''Time '', Flt (real i * 0.1), Str ''s - '',
                Str ''Position: ('', Flt (vec_x location), Str '', '',
                Flt (vec_y location), Str '', '', Flt (vec_z location), Str '') '',
                Str ''Speed: '', Flt (speed_of velocity), Str '' km/h'']) (\<lambda>_.
     sleep_for 100))))"

text \<open>Lines 122 to 137: \<open>for (int i = 0; i < 50; ++i)\<close>, from the counter \<open>i\<close> on.\<close>

function drive_loop :: "sdk \<Rightarrow> Control \<Rightarrow> nat \<Rightarrow> unit exec" where
  "drive_loop s control i =
     (if i < 50 then bnd (tick s control i) (\<lambda>_. drive_loop s control (i + 1))
      else ret ())"
  by pat_completeness auto
termination
  by (relation "measure (\<lambda>(s, control, i). 50 - i)") auto

declare drive_loop.simps [simp del]

text \<open>Lines 114 to 145: the scenario.\<close>

definition drive_control :: Control where
  "drive_control = \<lparr>throttle = 0.5, steer = 0, brake = 0\<rparr>"

definition brake_control :: Control where
  "brake_control = drive_control\<lparr>throttle := 0, brake := 1\<rparr>"

definition scenario :: "sdk \<Rightarrow> unit exec" where
  "scenario s =
     bnd (cout [Str (CHR 0x0A #
            ''=== Scenario start: Moving vehicle forward for 5 seconds ==='')]) (\<lambda>_.
     bnd (drive_loop s drive_control 0) (\<lambda>_.
     bnd (cout [Str (CHR 0x0A # ''Applying brake to stop'')]) (\<lambda>_.
     bnd (sdk_call (CallApplyControl brake_control) (ApplyControl s 50 brake_control)) (\<lambda>_.
     sleep_for 2000))))"

text \<open>Lines 150 to 167: the handles are released and the process exits.\<close>

definition cleanup :: "unit exec" where
  "cleanup =
     bnd (cout [Str (CHR 0x0A # ''Cleaning up...'')]) (\<lambda>_.
     bnd (reset vehicle_handle) (\<lambda>_.
     bnd (reset actor_handle) (\<lambda>_.
     bnd (cout [Str ''Scenario completed!'']) (\<lambda>_.
     std_exit 0))))"

text \<open>Lines 24 to 167: the \<open>try\<close> block.\<close>

definition try_block :: "string list \<Rightarrow> sdk \<Rightarrow> unit exec" where
  "try_block argv s =
     bnd (parse_args argv) (\<lambda>(host, port).
     bnd (connect s host port) (\<lambda>_.
     bnd (find_vehicle_bp s) (\<lambda>vehicle_bp.
     bnd (get_spawn_point s) (\<lambda>spawn_point.
     bnd (spawn_vehicle s vehicle_bp spawn_point) (\<lambda>_.
     bnd (setup_spectator s) (\<lambda>_.
     bnd (scenario s) (\<lambda>_.
     cleanup)))))))"

text \<open>
  Lines 22 to 175: \<open>main\<close>. The handler writes one line to stderr and exits with 1; after
  the \<open>try\<close> statement comes \<open>return 0\<close>.
\<close>

definition main :: "string list \<Rightarrow> sdk \<Rightarrow> event list \<times> outcome" where
  "main argv s =
     (case try_block argv s of
        (tr, Inl (Throw e)) \<Rightarrow> (tr @ [Stderr (''Error occurred: '' @ what e)], Exited 1)
      | (tr, Inl (Stop oc)) \<Rightarrow> (tr, oc)
      | (tr, Inr _) \<Rightarrow> (tr, Returned 0))"

section \<open>Observations on a run and test doubles\<close>

text \<open>The control messages of a trace, in the order in which they are emitted.\<close>

fun control_of :: "event \<Rightarrow> Control list" where
  "control_of (Sdk (CallApplyControl c)) = [c]"
| "control_of _ = []"

definition controls :: "event list \<Rightarrow> Control list" where
  "controls tr = concat (map control_of tr)"

text \<open>The lines written to stderr.\<close>

fun stderr_of :: "event \<Rightarrow> string list" where
  "stderr_of (Stderr l) = [l]"
| "stderr_of _ = []"

definition stderr_lines :: "event list \<Rightarrow> string list" where
  "stderr_lines tr = concat (map stderr_of tr)"

text \<open>The transforms given to the spectator, and the spawn requests.\<close>

fun placement_of :: "event \<Rightarrow> Transform list" where
  "placement_of (Sdk (CallSetTransform t)) = [t]"
| "placement_of _ = []"

definition placements :: "event list \<Rightarrow> Transform list" where
  "placements tr = concat (map placement_of tr)"

fun spawn_of :: "event \<Rightarrow> (bp_reference \<times> Transform) list" where
  "spawn_of (Sdk (CallSpawnActor b t)) = [(b, t)]"
| "spawn_of _ = []"

definition spawns :: "event list \<Rightarrow> (bp_reference \<times> Transform) list" where
  "spawns tr = concat (map spawn_of tr)"

text \<open>An event that is neither a line on stderr nor an explicit destruction.\<close>

fun quiet :: "event \<Rightarrow> bool" where
  "quiet (Stderr _) = False"
| "quiet (Sdk CallDestroy) = False"
| "quiet _ = True"

text \<open>The calls that change the remote world.\<close>

fun modifies_world :: "event \<Rightarrow> bool" where
  "modifies_world (Sdk (CallSpawnActor _ _)) = True"
| "modifies_world (Sdk (CallSetTransform _)) = True"
| "modifies_world (Sdk (CallApplyControl _)) = True"
| "modifies_world (Sdk CallDestroy) = True"
| "modifies_world _ = False"

text \<open>
  The events of the control phase: control messages, telemetry reads, and the lines of
  the log that report the telemetry (they are the lines that start with \<open>Time\<close>).
\<close>

fun is_tick_event :: "event \<Rightarrow> bool" where
  "is_tick_event (Sdk (CallApplyControl _)) = True"
| "is_tick_event (Sdk CallGetLocation) = True"
| "is_tick_event (Sdk CallGetVelocity) = True"
| "is_tick_event (Stdout (Str l # _)) = (l = ''Time '')"
| "is_tick_event _ = False"

text \<open>
  The spec's "parses as an unsigned 16-bit integer": a non-empty string of decimal digits
  whose value is at most 65535.
\<close>

definition is_u16_literal :: "string \<Rightarrow> bool" where
  "is_u16_literal str = (str \<noteq> [] \<and> list_all isdigit str \<and> dec_value str < 65536)"

text \<open>
  A cooperative SDK: every call succeeds, the vehicle stands at the origin of the world
  and looks along the x axis.
\<close>

definition origin :: Transform where
  "origin = \<lparr>location = \<lparr>vec_x = 0, vec_y = 0, vec_z = 0\<rparr>,
             rotation = \<lparr>pitch = 0, yaw = 0, roll = 0\<rparr>\<rparr>"

definition mock_sdk :: sdk where
  "mock_sdk =
     \<lparr>Client = (\<lambda>_ _. Inr ()), SetTimeout = (\<lambda>_. Inr ()), GetWorld = Inr (), GetMap = Inr (),
      GetName = ''Town01'', GetBlueprintLibrary = Inr (),
      Find = (\<lambda>k. Inr (if k = ''vehicle.tesla.model3'' then Some (ActorBlueprint k) else None)),
      Filter = (\<lambda>_. Inr [ActorBlueprint ''vehicle.audi.tt'', ActorBlueprint ''vehicle.tesla.model3'']),
      GetRecommendedSpawnPoints = Inr [origin],
      SpawnActor = (\<lambda>_ _. Inr 42),
      GetSpectator = Inr (), GetTransform = Inr origin,
      GetForwardVector = (\<lambda>_. \<lparr>vec_x = 1, vec_y = 0, vec_z = 0\<rparr>),
      SetTransform = (\<lambda>_. Inr ()),
      ApplyControl = (\<lambda>_ _. Inr ()),
      GetLocation = (\<lambda>_. Inr (location origin)),
      GetVelocity = (\<lambda>_. Inr \<lparr>vec_x = 3, vec_y = 4, vec_z = 0\<rparr>)\<rparr>"

text \<open>
  Variants of it: the library has no Tesla Model 3; the library has no vehicle at all; the
  map has no spawn point; the server does not answer.
\<close>

definition mock_sdk_no_tesla :: sdk where
  "mock_sdk_no_tesla = mock_sdk\<lparr>Find := \<lambda>_. Inr None\<rparr>"

definition mock_sdk_no_vehicles :: sdk where
  "mock_sdk_no_vehicles = mock_sdk\<lparr>Find := \<lambda>_. Inr None, Filter := \<lambda>_. Inr []\<rparr>"

definition mock_sdk_no_spawn_points :: sdk where
  "mock_sdk_no_spawn_points = mock_sdk\<lparr>GetRecommendedSpawnPoints := Inr []\<rparr>"

definition mock_sdk_unreachable :: sdk where
  "mock_sdk_unreachable = mock_sdk\<lparr>GetWorld := Inl (sdk_error ''time-out'')\<rparr>"

section \<open>Auxiliary lemmas\<close>

subsection \<open>Sequencing and the sections of the body\<close>

lemma snd_bnd: "snd (bnd m f) = (case snd m of Inl st \<Rightarrow> Inl st | Inr a \<Rightarrow> snd (f a))"
  by (auto simp: bnd_def split: prod.splits sum.splits)

lemma fst_bnd: "fst (bnd m f) = (case snd m of Inl st \<Rightarrow> fst m | Inr a \<Rightarrow> fst m @ fst (f a))"
  by (auto simp: bnd_def split: prod.splits sum.splits)

lemma prims [simp]:
  "fst (ret a) = []" "snd (ret a) = Inr a"
  "fst (throw e) = []" "snd (throw e) = Inl (Throw e)"
  "fst (return_from_main n) = []" "snd (return_from_main n) = Inl (Stop (Returned n))"
  "fst (std_exit n) = []" "snd (std_exit n) = Inl (Stop (Exited n))"
  "fst (cout l) = [Stdout l]" "snd (cout l) = Inr ()"
  "fst (cerr l') = [Stderr l']" "snd (cerr l') = Inr ()"
  "fst (sleep_for ms) = [Sleep ms]" "snd (sleep_for ms) = Inr ()"
  "fst (reset h) = [Reset h]" "snd (reset h) = Inr ()"
  "fst (sdk_call c r) = [Sdk c]"
  "snd (sdk_call c r) = (case r of Inl e \<Rightarrow> Inl (Throw e) | Inr v \<Rightarrow> Inr v)"
  by (simp_all add: ret_def throw_def return_from_main_def std_exit_def cout_def cerr_def
      sleep_for_def reset_def sdk_call_def)

lemma connect_Inr:
  "snd (connect s host port) = Inr u \<Longrightarrow>
   fst (connect s host port) =
     [Stdout [Str ''Connecting to CARLA server: '', Str host, Str '':'', Num (unat port)],
      Sdk (CallClient host port), Sdk (CallSetTimeout 10),
      Stdout [Str ''Getting world information...''], Sdk CallGetWorld,
      Stdout [Str ''Getting map name...''], Sdk CallGetMap,
      Stdout [Str ''Connected to world: '', Str (GetName s)],
      Stdout [Str ''Getting blueprint library...''], Sdk CallGetBlueprintLibrary]"
  by (simp add: connect_def snd_bnd fst_bnd split: sum.splits)

lemma connect_no_Stop: "snd (connect s host port) \<noteq> Inl (Stop oc)"
  by (simp add: connect_def snd_bnd split: sum.splits)


lemma find_vehicle_bp_found:
  "Find s ''vehicle.tesla.model3'' = Inr (Some b) \<Longrightarrow>
   find_vehicle_bp s =
     ([Stdout [Str ''Finding vehicle blueprint...''], Sdk (CallFind ''vehicle.tesla.model3''),
       Stdout [Str ''Spawning Tesla Model 3'']], Inr (Pointer owned_by_blueprint_library b))"
  by (simp add: find_vehicle_bp_def bnd_def cout_def sdk_call_def ret_def)

lemma find_vehicle_bp_fallback:
  "Find s ''vehicle.tesla.model3'' = Inr None \<Longrightarrow> Filter s ''vehicle.*'' = Inr (b # bs) \<Longrightarrow>
   find_vehicle_bp s =
     ([Stdout [Str ''Finding vehicle blueprint...''], Sdk (CallFind ''vehicle.tesla.model3''),
       Sdk (CallFilter ''vehicle.*''), Stdout [Str ''Using vehicle: '', Str (GetId b)]],
      Inr (Pointer owned_by_vehicles b))"
  by (simp add: find_vehicle_bp_def bnd_def cout_def sdk_call_def ret_def)

lemma find_vehicle_bp_none:
  "Find s ''vehicle.tesla.model3'' = Inr None \<Longrightarrow> Filter s ''vehicle.*'' = Inr [] \<Longrightarrow>
   find_vehicle_bp s =
     ([Stdout [Str ''Finding vehicle blueprint...''], Sdk (CallFind ''vehicle.tesla.model3''),
       Sdk (CallFilter ''vehicle.*''), Stderr ''Error: No vehicle blueprints found''],
      Inl (Stop (Returned 1)))"
  by (simp add: find_vehicle_bp_def bnd_def cout_def cerr_def sdk_call_def return_from_main_def)

lemma find_vehicle_bp_Inr:
  "snd (find_vehicle_bp s) = Inr bp \<Longrightarrow>
   Find s ''vehicle.tesla.model3'' = Inr (Some (pointee bp)) \<and>
     owner bp = owned_by_blueprint_library \<or>
   Find s ''vehicle.tesla.model3'' = Inr None \<and> owner bp = owned_by_vehicles \<and>
     (\<exists>bs. Filter s ''vehicle.*'' = Inr (pointee bp # bs))"
  by (auto simp: find_vehicle_bp_def snd_bnd split: sum.splits option.splits list.splits)

lemma find_vehicle_bp_Stop:
  "snd (find_vehicle_bp s) = Inl (Stop oc) \<Longrightarrow>
   oc = Returned 1 \<and> Find s ''vehicle.tesla.model3'' = Inr None \<and> Filter s ''vehicle.*'' = Inr []"
  by (auto simp: find_vehicle_bp_def snd_bnd split: sum.splits option.splits list.splits)

lemma get_spawn_point_first:
  "GetRecommendedSpawnPoints s = Inr (sp # sps) \<Longrightarrow>
   get_spawn_point s =
     ([Stdout [Str ''Getting spawn points...''], Sdk CallGetRecommendedSpawnPoints,
       Stdout [Str ''Spawn point: ('', Flt (vec_x (location sp)), Str '', '',
               Flt (vec_y (location sp)), Str '', '', Flt (vec_z (location sp)), Str '')'']],
      Inr sp)"
  by (simp add: get_spawn_point_def bnd_def cout_def sdk_call_def ret_def)

lemma get_spawn_point_none:
  "GetRecommendedSpawnPoints s = Inr [] \<Longrightarrow>
   get_spawn_point s =
     ([Stdout [Str ''Getting spawn points...''], Sdk CallGetRecommendedSpawnPoints,
       Stderr ''Error: No spawn points found''], Inl (Stop (Returned 1)))"
  by (simp add: get_spawn_point_def bnd_def cout_def cerr_def sdk_call_def return_from_main_def)

lemma get_spawn_point_Inr:
  "snd (get_spawn_point s) = Inr sp \<Longrightarrow> \<exists>sps. GetRecommendedSpawnPoints s = Inr (sp # sps)"
  by (auto simp: get_spawn_point_def snd_bnd split: sum.splits list.splits)

lemma get_spawn_point_Stop:
  "snd (get_spawn_point s) = Inl (Stop oc) \<Longrightarrow>
   oc = Returned 1 \<and> GetRecommendedSpawnPoints s = Inr []"
  by (auto simp: get_spawn_point_def snd_bnd split: sum.splits list.splits)

lemma spawn_vehicle_Inr:
  "snd (spawn_vehicle s bp sp) = Inr a \<Longrightarrow>
   SpawnActor s (dereference bp) sp = Inr a \<and>
   fst (spawn_vehicle s bp sp) =
     [Stdout [Str ''Spawning vehicle...''], Sdk (CallSpawnActor (dereference bp) sp),
      Stdout [Str ''Casting vehicle...''],
      Stdout [Str ''Vehicle spawned (ID: '', Num a, Str '')''], Sleep 1000]"
  by (auto simp: spawn_vehicle_def snd_bnd fst_bnd split: sum.splits)

lemma spawn_vehicle_no_Stop: "snd (spawn_vehicle s bp sp) \<noteq> Inl (Stop oc)"
  by (simp add: spawn_vehicle_def snd_bnd split: sum.splits)

lemma setup_spectator_Inr:
  "snd (setup_spectator s) = Inr u \<Longrightarrow>
   \<exists>T. GetTransform s = Inr T \<and>
   fst (setup_spectator s) =
     [Stdout [Str (CHR 0x0A # ''Setting up spectator camera...'')], Sdk CallGetSpectator,
      Sdk CallGetTransform,
      Sdk (CallSetTransform (spectator_transform T (GetForwardVector s T))),
      Stdout [Str ''Spectator camera positioned behind vehicle'']]"
  by (auto simp: setup_spectator_def snd_bnd fst_bnd split: sum.splits)

lemma setup_spectator_no_Stop: "snd (setup_spectator s) \<noteq> Inl (Stop oc)"
  by (simp add: setup_spectator_def snd_bnd split: sum.splits)

lemma parse_args_fst: "fst (parse_args argv) = []"
  by (simp add: parse_args_def Let_def split: sum.splits)

lemma parse_args_no_Stop: "snd (parse_args argv) \<noteq> Inl (Stop oc)"
  by (simp add: parse_args_def Let_def split: sum.splits)


lemma tick_Inr:
  "snd (tick s c i) = Inr u \<Longrightarrow>
   \<exists>l v. ApplyControl s i c = Inr () \<and> GetLocation s i = Inr l \<and> GetVelocity s i = Inr v \<and>
     fst (tick s c i) =
       [Sdk (CallApplyControl c), Sdk CallGetLocation, Sdk CallGetVelocity,
        Stdout [Str ''Time '', Flt (real i * 0.1), Str ''s - '',
                Str ''Position: ('', Flt (vec_x l), Str '', '',
                Flt (vec_y l), Str '', '', Flt (vec_z l), Str '') '',
                Str ''Speed: '', Flt (speed_of v), Str '' km/h''],
        Sleep 100]"
  by (auto simp: tick_def snd_bnd fst_bnd split: sum.splits)

lemma tick_no_Stop: "snd (tick s c i) \<noteq> Inl (Stop oc)"
  by (simp add: tick_def snd_bnd split: sum.splits)

lemma tick_ok:
  "ApplyControl s i c = Inr () \<Longrightarrow> GetLocation s i = Inr l \<Longrightarrow> GetVelocity s i = Inr v \<Longrightarrow>
   snd (tick s c i) = Inr ()"
  by (simp add: tick_def snd_bnd)

lemma drive_loop_no_Stop: "snd (drive_loop s c i) \<noteq> Inl (Stop oc)"
proof (induction s c i rule: drive_loop.induct)
  case (1 s c i)
  show ?case
  proof (cases "i < 50")
    case True
    with 1 show ?thesis
      by (subst drive_loop.simps) (auto simp: snd_bnd tick_no_Stop split: sum.splits)
  next
    case False
    then show ?thesis by (subst drive_loop.simps) simp
  qed
qed

lemma drive_loop_Inr:
  "snd (drive_loop s c i) = Inr u \<Longrightarrow>
   (\<forall>j. i \<le> j \<and> j < 50 \<longrightarrow> snd (tick s c j) = Inr ()) \<and>
   fst (drive_loop s c i) = concat (map (\<lambda>j. fst (tick s c j)) [i..<50])"
proof (induction s c i rule: drive_loop.induct)
  case (1 s c i)
  show ?case
  proof (cases "i < 50")
    case True
    from 1(2) True have t: "snd (tick s c i) = Inr ()" and r: "snd (drive_loop s c (i + 1)) = Inr u"
      by (subst (asm) drive_loop.simps, simp add: snd_bnd split: sum.splits)+
    from 1(1) [OF True r]
    have ih1: "\<forall>j. i + 1 \<le> j \<and> j < 50 \<longrightarrow> snd (tick s c j) = Inr ()"
      and ih2: "fst (drive_loop s c (i + 1)) = concat (map (\<lambda>j. fst (tick s c j)) [i + 1..<50])"
      by simp_all
    have a: "\<forall>j. i \<le> j \<and> j < 50 \<longrightarrow> snd (tick s c j) = Inr ()"
    proof (intro allI impI)
      fix j assume j: "i \<le> j \<and> j < 50"
      show "snd (tick s c j) = Inr ()"
      proof (cases "j = i")
        case True with t show ?thesis by simp
      next
        case False with j ih1 show ?thesis by simp
      qed
    qed
    have u: "[i..<50] = i # [i + 1..<50]"
      using True by (simp add: upt_conv_Cons)
    have b: "fst (drive_loop s c i) = concat (map (\<lambda>j. fst (tick s c j)) [i..<50])"
      using True t ih2 by (subst drive_loop.simps, subst u) (simp add: fst_bnd)
    from a b show ?thesis by simp
  next
    case False
    then show ?thesis by (subst drive_loop.simps) auto
  qed
qed

lemma drive_loop_ok:
  "(\<forall>j. i \<le> j \<and> j < 50 \<longrightarrow> snd (tick s c j) = Inr ()) \<Longrightarrow> snd (drive_loop s c i) = Inr ()"
proof (induction s c i rule: drive_loop.induct)
  case (1 s c i)
  show ?case
  proof (cases "i < 50")
    case True
    from 1(2) have "\<forall>j. i + 1 \<le> j \<and> j < 50 \<longrightarrow> snd (tick s c j) = Inr ()" by simp
    from 1(1) [OF True this] have "snd (drive_loop s c (i + 1)) = Inr ()" .
    moreover from 1(2) True have "snd (tick s c i) = Inr ()" by simp
    ultimately show ?thesis using True
      by (subst drive_loop.simps) (simp add: snd_bnd)
  next
    case False
    then show ?thesis by (subst drive_loop.simps) simp
  qed
qed

lemma scenario_no_Stop: "snd (scenario s) \<noteq> Inl (Stop oc)"
  by (auto simp: scenario_def snd_bnd drive_loop_no_Stop split: sum.splits)

lemma scenario_Inr:
  "snd (scenario s) = Inr u \<Longrightarrow>
   (\<forall>j<50. snd (tick s drive_control j) = Inr ()) \<and>
   ApplyControl s 50 brake_control = Inr () \<and>
   fst (scenario s) =
     Stdout [Str (CHR 0x0A # ''=== Scenario start: Moving vehicle forward for 5 seconds ==='')] #
     concat (map (\<lambda>j. fst (tick s drive_control j)) [0..<50]) @
     [Stdout [Str (CHR 0x0A # ''Applying brake to stop'')],
      Sdk (CallApplyControl brake_control), Sleep 2000]"
proof -
  assume a: "snd (scenario s) = Inr u"
  then have l: "snd (drive_loop s drive_control 0) = Inr ()"
    and b: "ApplyControl s 50 brake_control = Inr ()"
    by (auto simp: scenario_def snd_bnd split: sum.splits)
  from drive_loop_Inr [OF l] b show ?thesis
    by (simp add: scenario_def fst_bnd l)
qed

lemma scenario_ok:
  "\<forall>j<50. snd (tick s drive_control j) = Inr () \<Longrightarrow> ApplyControl s 50 brake_control = Inr () \<Longrightarrow>
   snd (scenario s) = Inr ()"
  by (simp add: scenario_def snd_bnd drive_loop_ok)

lemma cleanup_eq:
  "cleanup =
     ([Stdout [Str (CHR 0x0A # ''Cleaning up...'')], Reset vehicle_handle, Reset actor_handle,
       Stdout [Str ''Scenario completed!'']], Inl (Stop (Exited 0)))"
  by (simp add: cleanup_def bnd_def cout_def reset_def std_exit_def)


lemma try_block_Exited:
  assumes "snd (try_block argv s) = Inl (Stop (Exited n))"
  shows "\<exists>host port bp sp a.
     parse_args argv = ([], Inr (host, port)) \<and> snd (connect s host port) = Inr () \<and>
     snd (find_vehicle_bp s) = Inr bp \<and> snd (get_spawn_point s) = Inr sp \<and>
     snd (spawn_vehicle s bp sp) = Inr a \<and> snd (setup_spectator s) = Inr () \<and>
     snd (scenario s) = Inr () \<and> n = 0 \<and>
     fst (try_block argv s) =
       fst (connect s host port) @ fst (find_vehicle_bp s) @ fst (get_spawn_point s) @
       fst (spawn_vehicle s bp sp) @ fst (setup_spectator s) @ fst (scenario s) @ fst cleanup"
proof -
  obtain host port where p: "snd (parse_args argv) = Inr (host, port)"
    using assms parse_args_no_Stop [of argv]
    by (auto simp: try_block_def snd_bnd split: sum.splits)
  then have p': "parse_args argv = ([], Inr (host, port))"
    using parse_args_fst [of argv] by (cases "parse_args argv") simp
  have c: "snd (connect s host port) = Inr ()"
    using assms p connect_no_Stop [of s host port]
    by (auto simp: try_block_def snd_bnd split: sum.splits)
  obtain bp where f: "snd (find_vehicle_bp s) = Inr bp"
    using assms p c find_vehicle_bp_Stop [of s]
    by (auto simp: try_block_def snd_bnd split: sum.splits)
  obtain sp where g: "snd (get_spawn_point s) = Inr sp"
    using assms p c f get_spawn_point_Stop [of s]
    by (auto simp: try_block_def snd_bnd split: sum.splits)
  obtain a where v: "snd (spawn_vehicle s bp sp) = Inr a"
    using assms p c f g spawn_vehicle_no_Stop [of s bp sp]
    by (auto simp: try_block_def snd_bnd split: sum.splits)
  have e: "snd (setup_spectator s) = Inr ()"
    using assms p c f g v setup_spectator_no_Stop [of s]
    by (auto simp: try_block_def snd_bnd split: sum.splits)
  have d: "snd (scenario s) = Inr ()"
    using assms p c f g v e scenario_no_Stop [of s]
    by (auto simp: try_block_def snd_bnd split: sum.splits)
  have n: "n = 0"
    using assms p c f g v e d by (simp add: try_block_def snd_bnd cleanup_eq)
  have "fst (try_block argv s) =
       fst (connect s host port) @ fst (find_vehicle_bp s) @ fst (get_spawn_point s) @
       fst (spawn_vehicle s bp sp) @ fst (setup_spectator s) @ fst (scenario s) @ fst cleanup"
    using p p' c f g v e d by (simp add: try_block_def fst_bnd)
  with p' c f g v e d n show ?thesis by blast
qed

lemma try_block_Returned:
  assumes "snd (try_block argv s) = Inl (Stop (Returned n))"
  shows "\<exists>host port.
     parse_args argv = ([], Inr (host, port)) \<and> snd (connect s host port) = Inr () \<and> n = 1 \<and>
     (snd (find_vehicle_bp s) = Inl (Stop (Returned 1)) \<and>
        fst (try_block argv s) = fst (connect s host port) @ fst (find_vehicle_bp s)
      \<or> (\<exists>bp. snd (find_vehicle_bp s) = Inr bp) \<and>
        snd (get_spawn_point s) = Inl (Stop (Returned 1)) \<and>
        fst (try_block argv s) =
          fst (connect s host port) @ fst (find_vehicle_bp s) @ fst (get_spawn_point s))"
proof -
  obtain host port where p: "snd (parse_args argv) = Inr (host, port)"
    using assms parse_args_no_Stop [of argv]
    by (auto simp: try_block_def snd_bnd split: sum.splits)
  then have p': "parse_args argv = ([], Inr (host, port))"
    using parse_args_fst [of argv] by (cases "parse_args argv") simp
  have c: "snd (connect s host port) = Inr ()"
    using assms p connect_no_Stop [of s host port]
    by (auto simp: try_block_def snd_bnd split: sum.splits)
  show ?thesis
  proof (cases "snd (find_vehicle_bp s)")
    case (Inl st)
    with assms p c have st: "st = Stop (Returned n)"
      by (simp add: try_block_def snd_bnd)
    with Inl find_vehicle_bp_Stop [of s "Returned n"] have n: "n = 1" by simp
    have "fst (try_block argv s) = fst (connect s host port) @ fst (find_vehicle_bp s)"
      using p p' c Inl by (simp add: try_block_def fst_bnd)
    with p' c n Inl st show ?thesis by blast
  next
    case (Inr bp)
    show ?thesis
    proof (cases "snd (get_spawn_point s)")
      case (Inl st)
      with assms p c Inr have st: "st = Stop (Returned n)"
        by (simp add: try_block_def snd_bnd)
      with Inl get_spawn_point_Stop [of s "Returned n"] have n: "n = 1" by simp
      have "fst (try_block argv s) =
          fst (connect s host port) @ fst (find_vehicle_bp s) @ fst (get_spawn_point s)"
        using p p' c Inr Inl by (simp add: try_block_def fst_bnd)
      with p' c n Inl Inr st show ?thesis by blast
    next
      case sp: (Inr sp)
      have False
        using assms p c Inr sp spawn_vehicle_no_Stop [of s bp sp "Returned n"]
          setup_spectator_no_Stop [of s "Returned n"] scenario_no_Stop [of s "Returned n"]
        by (auto simp: try_block_def snd_bnd cleanup_eq split: sum.splits)
      then show ?thesis ..
    qed
  qed
qed

lemma try_block_no_Inr: "snd (try_block argv s) \<noteq> Inr u"
  by (auto simp: try_block_def snd_bnd cleanup_eq split: sum.splits)


lemma connect_quiet: "list_all quiet (fst (connect s host port))"
  by (simp add: connect_def fst_bnd split: sum.splits)

lemma find_vehicle_bp_quiet:
  "snd (find_vehicle_bp s) \<noteq> Inl (Stop (Returned 1)) \<Longrightarrow> list_all quiet (fst (find_vehicle_bp s))"
  by (auto simp: find_vehicle_bp_def fst_bnd snd_bnd split: sum.splits option.splits list.splits)

lemma get_spawn_point_quiet:
  "snd (get_spawn_point s) \<noteq> Inl (Stop (Returned 1)) \<Longrightarrow> list_all quiet (fst (get_spawn_point s))"
  by (auto simp: get_spawn_point_def fst_bnd snd_bnd split: sum.splits list.splits)

lemma spawn_vehicle_quiet: "list_all quiet (fst (spawn_vehicle s bp sp))"
  by (simp add: spawn_vehicle_def fst_bnd split: sum.splits)

lemma setup_spectator_quiet: "list_all quiet (fst (setup_spectator s))"
  by (simp add: setup_spectator_def fst_bnd split: sum.splits)

lemma tick_quiet: "list_all quiet (fst (tick s c i))"
  by (simp add: tick_def fst_bnd split: sum.splits)

lemma drive_loop_quiet: "list_all quiet (fst (drive_loop s c i))"
proof (induction s c i rule: drive_loop.induct)
  case (1 s c i)
  show ?case
  proof (cases "i < 50")
    case True
    with 1 show ?thesis
      by (subst drive_loop.simps) (simp add: fst_bnd tick_quiet split: sum.splits)
  next
    case False
    then show ?thesis by (subst drive_loop.simps) simp
  qed
qed

lemma scenario_quiet: "list_all quiet (fst (scenario s))"
  by (simp add: scenario_def fst_bnd drive_loop_quiet split: sum.splits)

lemma cleanup_quiet: "list_all quiet (fst cleanup)"
  by (simp add: cleanup_eq)

lemma bnd_quiet:
  "list_all quiet (fst m) \<Longrightarrow> (\<And>a. snd m = Inr a \<Longrightarrow> list_all quiet (fst (f a))) \<Longrightarrow>
   list_all quiet (fst (bnd m f))"
  by (auto simp: fst_bnd split: sum.splits)

lemma after_spawn_point_quiet:
  "list_all quiet
     (fst (bnd (spawn_vehicle s bp sp) (\<lambda>_.
           bnd (setup_spectator s) (\<lambda>_.
           bnd (scenario s) (\<lambda>_. cleanup)))))"
  by (intro bnd_quiet spawn_vehicle_quiet setup_spectator_quiet scenario_quiet cleanup_quiet)

lemma try_block_quiet:
  assumes "snd (try_block argv s) \<noteq> Inl (Stop (Returned 1))"
  shows "list_all quiet (fst (try_block argv s))"
proof (cases "snd (parse_args argv)")
  case (Inl st)
  then show ?thesis by (simp add: try_block_def fst_bnd parse_args_fst)
next
  case p: (Inr hp)
  obtain host port where hp: "hp = (host, port)" by (cases hp)
  show ?thesis
  proof (cases "snd (connect s host port)")
    case (Inl st)
    with p hp show ?thesis
      by (simp add: try_block_def fst_bnd parse_args_fst connect_quiet)
  next
    case c: (Inr u)
    show ?thesis
    proof (cases "snd (find_vehicle_bp s)")
      case (Inl st)
      with p hp c assms have "snd (find_vehicle_bp s) \<noteq> Inl (Stop (Returned 1))"
        by (simp add: try_block_def snd_bnd)
      from find_vehicle_bp_quiet [OF this] p hp c Inl show ?thesis
        by (simp add: try_block_def fst_bnd parse_args_fst connect_quiet)
    next
      case f: (Inr bp)
      then have fq: "list_all quiet (fst (find_vehicle_bp s))"
        by (simp add: find_vehicle_bp_quiet)
      show ?thesis
      proof (cases "snd (get_spawn_point s)")
        case (Inl st)
        with p hp c f assms have "snd (get_spawn_point s) \<noteq> Inl (Stop (Returned 1))"
          by (simp add: try_block_def snd_bnd)
        from get_spawn_point_quiet [OF this] p hp c f fq Inl show ?thesis
          by (simp add: try_block_def fst_bnd parse_args_fst connect_quiet)
      next
        case g: (Inr sp)
        then have gq: "list_all quiet (fst (get_spawn_point s))"
          by (simp add: get_spawn_point_quiet)
        have "fst (try_block argv s) =
            fst (connect s host port) @ fst (find_vehicle_bp s) @ fst (get_spawn_point s) @
            fst (bnd (spawn_vehicle s bp sp) (\<lambda>_.
                 bnd (setup_spectator s) (\<lambda>_.
                 bnd (scenario s) (\<lambda>_. cleanup))))"
          unfolding try_block_def
          by (subst fst_bnd, simp add: p hp parse_args_fst, subst fst_bnd, simp add: c,
              subst fst_bnd, simp add: f, subst fst_bnd, simp add: g)
        with fq gq show ?thesis
          by (simp add: connect_quiet after_spawn_point_quiet)
      qed
    qed
  qed
qed

lemma main_Throw:
  "snd (try_block argv s) = Inl (Throw e) \<Longrightarrow>
   main argv s = (fst (try_block argv s) @ [Stderr (''Error occurred: '' @ what e)], Exited 1)"
  by (cases "try_block argv s") (simp add: main_def)

lemma main_Stop:
  "snd (try_block argv s) = Inl (Stop oc) \<Longrightarrow> main argv s = (fst (try_block argv s), oc)"
  by (cases "try_block argv s") (simp add: main_def)

lemma main_Exited_0:
  assumes "snd (main argv s) = Exited 0"
  shows "snd (try_block argv s) = Inl (Stop (Exited 0)) \<and> fst (main argv s) = fst (try_block argv s)"
proof (cases "snd (try_block argv s)")
  case (Inl st)
  show ?thesis
  proof (cases st)
    case (Throw e)
    with Inl assms main_Throw [of argv s e] show ?thesis by simp
  next
    case (Stop oc)
    with Inl assms main_Stop [of argv s oc] show ?thesis by simp
  qed
next
  case (Inr u)
  with try_block_no_Inr show ?thesis by blast
qed

lemma main_Exited_1:
  assumes "snd (main argv s) = Exited n" and "n \<noteq> 0"
  shows "\<exists>e. snd (try_block argv s) = Inl (Throw e)"
proof (cases "snd (try_block argv s)")
  case (Inl st)
  show ?thesis
  proof (cases st)
    case (Throw e)
    with Inl show ?thesis by simp
  next
    case (Stop oc)
    with Inl assms main_Stop [of argv s oc] have "snd (try_block argv s) = Inl (Stop (Exited n))"
      by simp
    from try_block_Exited [OF this] assms show ?thesis by blast
  qed
next
  case (Inr u)
  with try_block_no_Inr show ?thesis by blast
qed

lemma main_Returned:
  assumes "snd (main argv s) = Returned n"
  shows "snd (try_block argv s) = Inl (Stop (Returned n)) \<and> fst (main argv s) = fst (try_block argv s)"
proof (cases "snd (try_block argv s)")
  case (Inl st)
  show ?thesis
  proof (cases st)
    case (Throw e)
    with Inl assms main_Throw [of argv s e] show ?thesis by simp
  next
    case (Stop oc)
    with Inl assms main_Stop [of argv s oc] show ?thesis by simp
  qed
next
  case (Inr u)
  with try_block_no_Inr show ?thesis by blast
qed

subsection \<open>The trace of a run that reaches completion\<close>

lemma find_vehicle_bp_trace:
  "snd (find_vehicle_bp s) = Inr bp \<Longrightarrow>
   fst (find_vehicle_bp s) =
     [Stdout [Str ''Finding vehicle blueprint...''], Sdk (CallFind ''vehicle.tesla.model3'')] @
     (if Find s ''vehicle.tesla.model3'' = Inr (Some (pointee bp))
      then [Stdout [Str ''Spawning Tesla Model 3'']]
      else [Sdk (CallFilter ''vehicle.*''), Stdout [Str ''Using vehicle: '', Str (GetId (pointee bp))]])"
  by (auto simp: find_vehicle_bp_def snd_bnd fst_bnd split: sum.splits option.splits list.splits)

lemma tick_traces:
  assumes "\<forall>j\<in>set js. snd (tick s c j) = Inr ()"
  shows "concat (map (\<lambda>j. fst (tick s c j)) js) =
     concat (map (\<lambda>i.
       [Sdk (CallApplyControl c), Sdk CallGetLocation, Sdk CallGetVelocity,
        Stdout [Str ''Time '', Flt (real i * 0.1), Str ''s - '',
                Str ''Position: ('', Flt (vec_x (projr (GetLocation s i))), Str '', '',
                Flt (vec_y (projr (GetLocation s i))), Str '', '',
                Flt (vec_z (projr (GetLocation s i))), Str '') '',
                Str ''Speed: '', Flt (speed_of (projr (GetVelocity s i))), Str '' km/h''],
        Sleep 100]) js)"
  using assms
proof (induction js)
  case Nil
  show ?case by simp
next
  case (Cons j js)
  from Cons.prems have "snd (tick s c j) = Inr ()" by simp
  from tick_Inr [OF this] Cons show ?case by auto
qed

lemma tick_responses:
  "snd (tick s c i) = Inr u \<Longrightarrow>
   GetLocation s i = Inr (projr (GetLocation s i)) \<and> GetVelocity s i = Inr (projr (GetVelocity s i))"
  by (auto dest: tick_Inr)

lemma completed_run:
  assumes "snd (main argv s) = Exited 0"
  shows "\<exists>host port bp sp sps a T.
     parse_args argv = ([], Inr (host, port)) \<and>
     snd (find_vehicle_bp s) = Inr bp \<and>
     GetRecommendedSpawnPoints s = Inr (sp # sps) \<and>
     SpawnActor s (dereference bp) sp = Inr a \<and>
     GetTransform s = Inr T \<and>
     (\<forall>i<50. GetLocation s i = Inr (projr (GetLocation s i)) \<and>
              GetVelocity s i = Inr (projr (GetVelocity s i))) \<and>
     fst (main argv s) =
       [Stdout [Str ''Connecting to CARLA server: '', Str host, Str '':'', Num (unat port)],
        Sdk (CallClient host port), Sdk (CallSetTimeout 10),
        Stdout [Str ''Getting world information...''], Sdk CallGetWorld,
        Stdout [Str ''Getting map name...''], Sdk CallGetMap,
        Stdout [Str ''Connected to world: '', Str (GetName s)],
        Stdout [Str ''Getting blueprint library...''], Sdk CallGetBlueprintLibrary,
        Stdout [Str ''Finding vehicle blueprint...''], Sdk (CallFind ''vehicle.tesla.model3'')] @
       (if Find s ''vehicle.tesla.model3'' = Inr (Some (pointee bp))
        then [Stdout [Str ''Spawning Tesla Model 3'']]
        else [Sdk (CallFilter ''vehicle.*''), Stdout [Str ''Using vehicle: '', Str (GetId (pointee bp))]]) @
       [Stdout [Str ''Getting spawn points...''], Sdk CallGetRecommendedSpawnPoints,
        Stdout [Str ''Spawn point: ('', Flt (vec_x (location sp)), Str '', '',
                Flt (vec_y (location sp)), Str '', '', Flt (vec_z (location sp)), Str '')''],
        Stdout [Str ''Spawning vehicle...''], Sdk (CallSpawnActor (dereference bp) sp),
        Stdout [Str ''Casting vehicle...''],
        Stdout [Str ''Vehicle spawned (ID: '', Num a, Str '')''], Sleep 1000,
        Stdout [Str (CHR 0x0A # ''Setting up spectator camera...'')], Sdk CallGetSpectator,
        Sdk CallGetTransform,
        Sdk (CallSetTransform (spectator_transform T (GetForwardVector s T))),
        Stdout [Str ''Spectator camera positioned behind vehicle''],
        Stdout [Str (CHR 0x0A # ''=== Scenario start: Moving vehicle forward for 5 seconds ==='')]] @
       concat (map (\<lambda>i.
         [Sdk (CallApplyControl drive_control), Sdk CallGetLocation, Sdk CallGetVelocity,
          Stdout [Str ''Time '', Flt (real i * 0.1), Str ''s - '',
                  Str ''Position: ('', Flt (vec_x (projr (GetLocation s i))), Str '', '',
                  Flt (vec_y (projr (GetLocation s i))), Str '', '',
                  Flt (vec_z (projr (GetLocation s i))), Str '') '',
                  Str ''Speed: '', Flt (speed_of (projr (GetVelocity s i))), Str '' km/h''],
          Sleep 100]) [0..<50]) @
       [Stdout [Str (CHR 0x0A # ''Applying brake to stop'')],
        Sdk (CallApplyControl brake_control), Sleep 2000,
        Stdout [Str (CHR 0x0A # ''Cleaning up...'')], Reset vehicle_handle, Reset actor_handle,
        Stdout [Str ''Scenario completed!'']]"
proof -
  from main_Exited_0 [OF assms]
  have e: "snd (try_block argv s) = Inl (Stop (Exited 0))"
    and m: "fst (main argv s) = fst (try_block argv s)" by simp_all
  from try_block_Exited [OF e] obtain host port bp sp a where
    p: "parse_args argv = ([], Inr (host, port))" and
    c: "snd (connect s host port) = Inr ()" and
    f: "snd (find_vehicle_bp s) = Inr bp" and
    g: "snd (get_spawn_point s) = Inr sp" and
    v: "snd (spawn_vehicle s bp sp) = Inr a" and
    w: "snd (setup_spectator s) = Inr ()" and
    d: "snd (scenario s) = Inr ()" and
    t: "fst (try_block argv s) =
       fst (connect s host port) @ fst (find_vehicle_bp s) @ fst (get_spawn_point s) @
       fst (spawn_vehicle s bp sp) @ fst (setup_spectator s) @ fst (scenario s) @ fst cleanup"
    by blast
  from get_spawn_point_Inr [OF g] obtain sps where
    g1: "GetRecommendedSpawnPoints s = Inr (sp # sps)" by blast
  from setup_spectator_Inr [OF w] obtain T where
    w1: "GetTransform s = Inr T" and
    w2: "fst (setup_spectator s) =
     [Stdout [Str (CHR 0x0A # ''Setting up spectator camera...'')], Sdk CallGetSpectator,
      Sdk CallGetTransform,
      Sdk (CallSetTransform (spectator_transform T (GetForwardVector s T))),
      Stdout [Str ''Spectator camera positioned behind vehicle'']]" by blast
  from scenario_Inr [OF d]
  have d1: "\<forall>j<50. snd (tick s drive_control j) = Inr ()" and
    d2: "fst (scenario s) =
     Stdout [Str (CHR 0x0A # ''=== Scenario start: Moving vehicle forward for 5 seconds ==='')] #
     concat (map (\<lambda>j. fst (tick s drive_control j)) [0..<50]) @
     [Stdout [Str (CHR 0x0A # ''Applying brake to stop'')],
      Sdk (CallApplyControl brake_control), Sleep 2000]" by simp_all
  from d1 have d3: "\<forall>j\<in>set [0..<50]. snd (tick s drive_control j) = Inr ()" by simp
  from d1 have r: "\<forall>i<50. GetLocation s i = Inr (projr (GetLocation s i)) \<and>
              GetVelocity s i = Inr (projr (GetVelocity s i))"
    using tick_responses by blast
  show ?thesis
    apply (rule exI [of _ host], rule exI [of _ port], rule exI [of _ bp], rule exI [of _ sp],
        rule exI [of _ sps], rule exI [of _ a], rule exI [of _ T])
    apply (intro conjI p f g1 w1 r)
     apply (rule conjunct1 [OF spawn_vehicle_Inr [OF v]])
    apply (simp only: m t connect_Inr [OF c] find_vehicle_bp_trace [OF f]
        get_spawn_point_first [OF g1] fst_conv conjunct2 [OF spawn_vehicle_Inr [OF v]] w2 d2
        tick_traces [OF d3] cleanup_eq append_Cons append_Nil append_assoc)
    done
qed

subsection \<open>Runs that complete, and the cooperative SDK\<close>

lemma run_completes:
  assumes "parse_args argv = ([], Inr (host, port))"
    and "snd (connect s host port) = Inr ()"
    and "snd (find_vehicle_bp s) = Inr bp"
    and "snd (get_spawn_point s) = Inr sp"
    and "snd (spawn_vehicle s bp sp) = Inr a"
    and "snd (setup_spectator s) = Inr ()"
    and "snd (scenario s) = Inr ()"
  shows "snd (main argv s) = Exited 0"
proof -
  have "snd (try_block argv s) = Inl (Stop (Exited 0))"
    using assms by (simp add: try_block_def snd_bnd cleanup_eq)
  from main_Stop [OF this] show ?thesis by simp
qed

lemma mock_sdk_completes_from:
  assumes "parse_args argv = ([], Inr (host, port))"
  shows "snd (main argv mock_sdk) = Exited 0"
proof (rule run_completes [OF assms])
  show "snd (connect mock_sdk host port) = Inr ()"
    by (simp add: connect_def snd_bnd mock_sdk_def)
  show "snd (find_vehicle_bp mock_sdk) = Inr (Pointer owned_by_blueprint_library (ActorBlueprint ''vehicle.tesla.model3''))"
    by (simp add: find_vehicle_bp_def snd_bnd mock_sdk_def)
  show "snd (get_spawn_point mock_sdk) = Inr origin"
    by (simp add: get_spawn_point_def snd_bnd mock_sdk_def)
  show "snd (spawn_vehicle mock_sdk
      (Pointer owned_by_blueprint_library (ActorBlueprint ''vehicle.tesla.model3'')) origin) = Inr 42"
    by (simp add: spawn_vehicle_def snd_bnd mock_sdk_def)
  show "snd (setup_spectator mock_sdk) = Inr ()"
    by (simp add: setup_spectator_def snd_bnd mock_sdk_def)
  show "snd (scenario mock_sdk) = Inr ()"
    by (rule scenario_ok) (simp_all add: tick_def snd_bnd mock_sdk_def)
qed

lemma mock_sdk_completes: "snd (main [''program''] mock_sdk) = Exited 0"
  by (rule mock_sdk_completes_from) (simp add: parse_args_def ret_def)

lemma concat_map_concat:
  "concat (map g (concat xss)) = concat (map (\<lambda>xs. concat (map g xs)) xss)"
  by (induction xss) simp_all

lemma concat_map_single: "concat (map (\<lambda>_. [c]) xs) = replicate (length xs) c"
  by (induction xs) simp_all

subsection \<open>Runs that return from \<open>main\<close>\<close>

lemma returned_run:
  assumes "snd (main argv s) = Returned n"
  shows "n = 1 \<and> (\<exists>host port.
     parse_args argv = ([], Inr (host, port)) \<and> snd (connect s host port) = Inr () \<and>
     (Find s ''vehicle.tesla.model3'' = Inr None \<and> Filter s ''vehicle.*'' = Inr [] \<and>
      fst (main argv s) =
        [Stdout [Str ''Connecting to CARLA server: '', Str host, Str '':'', Num (unat port)],
         Sdk (CallClient host port), Sdk (CallSetTimeout 10),
         Stdout [Str ''Getting world information...''], Sdk CallGetWorld,
         Stdout [Str ''Getting map name...''], Sdk CallGetMap,
         Stdout [Str ''Connected to world: '', Str (GetName s)],
         Stdout [Str ''Getting blueprint library...''], Sdk CallGetBlueprintLibrary,
         Stdout [Str ''Finding vehicle blueprint...''], Sdk (CallFind ''vehicle.tesla.model3''),
         Sdk (CallFilter ''vehicle.*''), Stderr ''Error: No vehicle blueprints found'']
      \<or> (\<exists>bp. snd (find_vehicle_bp s) = Inr bp \<and> GetRecommendedSpawnPoints s = Inr [] \<and>
      fst (main argv s) =
        [Stdout [Str ''Connecting to CARLA server: '', Str host, Str '':'', Num (unat port)],
         Sdk (CallClient host port), Sdk (CallSetTimeout 10),
         Stdout [Str ''Getting world information...''], Sdk CallGetWorld,
         Stdout [Str ''Getting map name...''], Sdk CallGetMap,
         Stdout [Str ''Connected to world: '', Str (GetName s)],
         Stdout [Str ''Getting blueprint library...''], Sdk CallGetBlueprintLibrary,
         Stdout [Str ''Finding vehicle blueprint...''], Sdk (CallFind ''vehicle.tesla.model3'')] @
        (if Find s ''vehicle.tesla.model3'' = Inr (Some (pointee bp))
         then [Stdout [Str ''Spawning Tesla Model 3'']]
         else [Sdk (CallFilter ''vehicle.*''), Stdout [Str ''Using vehicle: '', Str (GetId (pointee bp))]]) @
        [Stdout [Str ''Getting spawn points...''], Sdk CallGetRecommendedSpawnPoints,
         Stderr ''Error: No spawn points found''])))"
proof -
  from main_Returned [OF assms]
  have e: "snd (try_block argv s) = Inl (Stop (Returned n))"
    and m: "fst (main argv s) = fst (try_block argv s)" by simp_all
  from try_block_Returned [OF e] obtain host port where
    p: "parse_args argv = ([], Inr (host, port))" and
    c: "snd (connect s host port) = Inr ()" and n: "n = 1" and
    alt: "snd (find_vehicle_bp s) = Inl (Stop (Returned 1)) \<and>
        fst (try_block argv s) = fst (connect s host port) @ fst (find_vehicle_bp s)
      \<or> (\<exists>bp. snd (find_vehicle_bp s) = Inr bp) \<and>
        snd (get_spawn_point s) = Inl (Stop (Returned 1)) \<and>
        fst (try_block argv s) =
          fst (connect s host port) @ fst (find_vehicle_bp s) @ fst (get_spawn_point s)"
    by blast
  from alt show ?thesis
  proof
    assume a: "snd (find_vehicle_bp s) = Inl (Stop (Returned 1)) \<and>
        fst (try_block argv s) = fst (connect s host port) @ fst (find_vehicle_bp s)"
    with find_vehicle_bp_Stop [of s "Returned 1"]
    have f1: "Find s ''vehicle.tesla.model3'' = Inr None" and f2: "Filter s ''vehicle.*'' = Inr []"
      by simp_all
    have "fst (main argv s) =
        [Stdout [Str ''Connecting to CARLA server: '', Str host, Str '':'', Num (unat port)],
         Sdk (CallClient host port), Sdk (CallSetTimeout 10),
         Stdout [Str ''Getting world information...''], Sdk CallGetWorld,
         Stdout [Str ''Getting map name...''], Sdk CallGetMap,
         Stdout [Str ''Connected to world: '', Str (GetName s)],
         Stdout [Str ''Getting blueprint library...''], Sdk CallGetBlueprintLibrary,
         Stdout [Str ''Finding vehicle blueprint...''], Sdk (CallFind ''vehicle.tesla.model3''),
         Sdk (CallFilter ''vehicle.*''), Stderr ''Error: No vehicle blueprints found'']"
      using a by (simp add: m connect_Inr [OF c] find_vehicle_bp_none [OF f1 f2])
    with n p c f1 f2 show ?thesis by blast
  next
    assume a: "(\<exists>bp. snd (find_vehicle_bp s) = Inr bp) \<and>
        snd (get_spawn_point s) = Inl (Stop (Returned 1)) \<and>
        fst (try_block argv s) =
          fst (connect s host port) @ fst (find_vehicle_bp s) @ fst (get_spawn_point s)"
    then obtain bp where f: "snd (find_vehicle_bp s) = Inr bp" by blast
    from a get_spawn_point_Stop [of s "Returned 1"]
    have g: "GetRecommendedSpawnPoints s = Inr []" by simp
    have "fst (main argv s) =
        [Stdout [Str ''Connecting to CARLA server: '', Str host, Str '':'', Num (unat port)],
         Sdk (CallClient host port), Sdk (CallSetTimeout 10),
         Stdout [Str ''Getting world information...''], Sdk CallGetWorld,
         Stdout [Str ''Getting map name...''], Sdk CallGetMap,
         Stdout [Str ''Connected to world: '', Str (GetName s)],
         Stdout [Str ''Getting blueprint library...''], Sdk CallGetBlueprintLibrary,
         Stdout [Str ''Finding vehicle blueprint...''], Sdk (CallFind ''vehicle.tesla.model3'')] @
        (if Find s ''vehicle.tesla.model3'' = Inr (Some (pointee bp))
         then [Stdout [Str ''Spawning Tesla Model 3'']]
         else [Sdk (CallFilter ''vehicle.*''), Stdout [Str ''Using vehicle: '', Str (GetId (pointee bp))]]) @
        [Stdout [Str ''Getting spawn points...''], Sdk CallGetRecommendedSpawnPoints,
         Stderr ''Error: No spawn points found'']"
      using a
      by (simp only: m connect_Inr [OF c] find_vehicle_bp_trace [OF f] get_spawn_point_none [OF g]
          fst_conv append_Cons append_Nil append_assoc)
    with n p c f g show ?thesis by blast
  qed
qed

lemma returns_when_no_blueprint:
  assumes "parse_args argv = ([], Inr (host, port))"
    and "snd (connect s host port) = Inr ()"
    and "Find s ''vehicle.tesla.model3'' = Inr None" and "Filter s ''vehicle.*'' = Inr []"
  shows "snd (main argv s) = Returned 1"
proof -
  have "snd (try_block argv s) = Inl (Stop (Returned 1))"
    using assms by (simp add: try_block_def snd_bnd find_vehicle_bp_none)
  from main_Stop [OF this] show ?thesis by simp
qed

lemma returns_when_no_spawn_point:
  assumes "parse_args argv = ([], Inr (host, port))"
    and "snd (connect s host port) = Inr ()"
    and "snd (find_vehicle_bp s) = Inr bp"
    and "GetRecommendedSpawnPoints s = Inr []"
  shows "snd (main argv s) = Returned 1"
proof -
  have "snd (try_block argv s) = Inl (Stop (Returned 1))"
    using assms by (simp add: try_block_def snd_bnd get_spawn_point_none)
  from main_Stop [OF this] show ?thesis by simp
qed

lemma no_destroy: "Sdk CallDestroy \<notin> set (fst (main argv s))"
proof (cases "snd (main argv s)")
  case (Returned n)
  from returned_run [OF this] show ?thesis by (auto split: if_splits)
next
  case (Exited n)
  then have ne: "snd (try_block argv s) \<noteq> Inl (Stop (Returned 1))"
    by (auto dest: main_Stop)
  from try_block_quiet [OF this] have q: "Sdk CallDestroy \<notin> set (fst (try_block argv s))"
    by (auto simp: list_all_iff)
  show ?thesis
  proof (cases "snd (try_block argv s)")
    case (Inl st)
    with q show ?thesis
      by (cases st) (auto simp: main_Throw main_Stop)
  next
    case (Inr u)
    with try_block_no_Inr show ?thesis by blast
  qed
qed

lemma status_0: "status (snd (main argv s)) = 0 \<Longrightarrow> snd (main argv s) = Exited 0"
proof (cases "snd (main argv s)")
  case (Returned n)
  assume "status (snd (main argv s)) = 0"
  with Returned returned_run [OF Returned] show ?thesis by simp
next
  case (Exited n)
  assume "status (snd (main argv s)) = 0"
  with Exited show ?thesis by simp
qed

subsection \<open>The speed\<close>

lemma speed_of_norm:
  "speed_of v = 3.6 * sqrt ((vec_x v)\<^sup>2 + (vec_y v)\<^sup>2 + (vec_z v)\<^sup>2)"
  by (simp add: speed_of_def power2_eq_square)

subsection \<open>Lines on stderr\<close>

lemma quiet_stderr_lines: "list_all quiet tr \<Longrightarrow> stderr_lines tr = []"
proof (induction tr)
  case Nil
  show ?case by (simp add: stderr_lines_def)
next
  case (Cons ev tr)
  then show ?case by (cases ev) (simp_all add: stderr_lines_def)
qed

lemma stderr_lines_append: "stderr_lines (a @ b) = stderr_lines a @ stderr_lines b"
  by (simp add: stderr_lines_def)

subsection \<open>The shape of a run that returns, and more on the cooperative SDK\<close>

lemma parse_args_program: "parse_args [''program''] = ([], Inr (''localhost'', 2000))"
  by (simp add: parse_args_def ret_def)

lemma connect_mock:
  "Client s = Client mock_sdk \<Longrightarrow> SetTimeout s = SetTimeout mock_sdk \<Longrightarrow>
   GetWorld s = GetWorld mock_sdk \<Longrightarrow> GetMap s = GetMap mock_sdk \<Longrightarrow>
   GetBlueprintLibrary s = GetBlueprintLibrary mock_sdk \<Longrightarrow>
   snd (connect s host port) = Inr ()"
  by (simp add: connect_def snd_bnd mock_sdk_def)

lemma returned_run_shape:
  assumes "snd (main argv s) = Returned n"
  shows "\<exists>log d. fst (main argv s) = log @ [Stderr d] \<and> list_all quiet log \<and>
     filter modifies_world log = [] \<and>
     (Find s ''vehicle.tesla.model3'' = Inr None \<and> Filter s ''vehicle.*'' = Inr [] \<and>
        d = ''Error: No vehicle blueprints found''
      \<or> (\<exists>bp. snd (find_vehicle_bp s) = Inr bp) \<and> GetRecommendedSpawnPoints s = Inr [] \<and>
        d = ''Error: No spawn points found'')"
proof -
  from returned_run [OF assms] obtain host port where
    alt: "Find s ''vehicle.tesla.model3'' = Inr None \<and> Filter s ''vehicle.*'' = Inr [] \<and>
      fst (main argv s) =
        [Stdout [Str ''Connecting to CARLA server: '', Str host, Str '':'', Num (unat port)],
         Sdk (CallClient host port), Sdk (CallSetTimeout 10),
         Stdout [Str ''Getting world information...''], Sdk CallGetWorld,
         Stdout [Str ''Getting map name...''], Sdk CallGetMap,
         Stdout [Str ''Connected to world: '', Str (GetName s)],
         Stdout [Str ''Getting blueprint library...''], Sdk CallGetBlueprintLibrary,
         Stdout [Str ''Finding vehicle blueprint...''], Sdk (CallFind ''vehicle.tesla.model3''),
         Sdk (CallFilter ''vehicle.*''), Stderr ''Error: No vehicle blueprints found'']
      \<or> (\<exists>bp. snd (find_vehicle_bp s) = Inr bp \<and> GetRecommendedSpawnPoints s = Inr [] \<and>
      fst (main argv s) =
        [Stdout [Str ''Connecting to CARLA server: '', Str host, Str '':'', Num (unat port)],
         Sdk (CallClient host port), Sdk (CallSetTimeout 10),
         Stdout [Str ''Getting world information...''], Sdk CallGetWorld,
         Stdout [Str ''Getting map name...''], Sdk CallGetMap,
         Stdout [Str ''Connected to world: '', Str (GetName s)],
         Stdout [Str ''Getting blueprint library...''], Sdk CallGetBlueprintLibrary,
         Stdout [Str ''Finding vehicle blueprint...''], Sdk (CallFind ''vehicle.tesla.model3'')] @
        (if Find s ''vehicle.tesla.model3'' = Inr (Some (pointee bp))
         then [Stdout [Str ''Spawning Tesla Model 3'']]
         else [Sdk (CallFilter ''vehicle.*''), Stdout [Str ''Using vehicle: '', Str (GetId (pointee bp))]]) @
        [Stdout [Str ''Getting spawn points...''], Sdk CallGetRecommendedSpawnPoints,
         Stderr ''Error: No spawn points found''])"
    by blast
  from alt show ?thesis
  proof
    assume a: "Find s ''vehicle.tesla.model3'' = Inr None \<and> Filter s ''vehicle.*'' = Inr [] \<and>
      fst (main argv s) =
        [Stdout [Str ''Connecting to CARLA server: '', Str host, Str '':'', Num (unat port)],
         Sdk (CallClient host port), Sdk (CallSetTimeout 10),
         Stdout [Str ''Getting world information...''], Sdk CallGetWorld,
         Stdout [Str ''Getting map name...''], Sdk CallGetMap,
         Stdout [Str ''Connected to world: '', Str (GetName s)],
         Stdout [Str ''Getting blueprint library...''], Sdk CallGetBlueprintLibrary,
         Stdout [Str ''Finding vehicle blueprint...''], Sdk (CallFind ''vehicle.tesla.model3''),
         Sdk (CallFilter ''vehicle.*''), Stderr ''Error: No vehicle blueprints found'']"
    show ?thesis
      by (rule exI [of _
        "[Stdout [Str ''Connecting to CARLA server: '', Str host, Str '':'', Num (unat port)],
         Sdk (CallClient host port), Sdk (CallSetTimeout 10),
         Stdout [Str ''Getting world information...''], Sdk CallGetWorld,
         Stdout [Str ''Getting map name...''], Sdk CallGetMap,
         Stdout [Str ''Connected to world: '', Str (GetName s)],
         Stdout [Str ''Getting blueprint library...''], Sdk CallGetBlueprintLibrary,
         Stdout [Str ''Finding vehicle blueprint...''], Sdk (CallFind ''vehicle.tesla.model3''),
         Sdk (CallFilter ''vehicle.*'')]"],
        rule exI [of _ "''Error: No vehicle blueprints found''"]) (simp add: a)
  next
    assume "\<exists>bp. snd (find_vehicle_bp s) = Inr bp \<and> GetRecommendedSpawnPoints s = Inr [] \<and>
      fst (main argv s) =
        [Stdout [Str ''Connecting to CARLA server: '', Str host, Str '':'', Num (unat port)],
         Sdk (CallClient host port), Sdk (CallSetTimeout 10),
         Stdout [Str ''Getting world information...''], Sdk CallGetWorld,
         Stdout [Str ''Getting map name...''], Sdk CallGetMap,
         Stdout [Str ''Connected to world: '', Str (GetName s)],
         Stdout [Str ''Getting blueprint library...''], Sdk CallGetBlueprintLibrary,
         Stdout [Str ''Finding vehicle blueprint...''], Sdk (CallFind ''vehicle.tesla.model3'')] @
        (if Find s ''vehicle.tesla.model3'' = Inr (Some (pointee bp))
         then [Stdout [Str ''Spawning Tesla Model 3'']]
         else [Sdk (CallFilter ''vehicle.*''), Stdout [Str ''Using vehicle: '', Str (GetId (pointee bp))]]) @
        [Stdout [Str ''Getting spawn points...''], Sdk CallGetRecommendedSpawnPoints,
         Stderr ''Error: No spawn points found'']"
    then obtain bp where f: "snd (find_vehicle_bp s) = Inr bp" and
      g: "GetRecommendedSpawnPoints s = Inr []" and
      t: "fst (main argv s) =
        [Stdout [Str ''Connecting to CARLA server: '', Str host, Str '':'', Num (unat port)],
         Sdk (CallClient host port), Sdk (CallSetTimeout 10),
         Stdout [Str ''Getting world information...''], Sdk CallGetWorld,
         Stdout [Str ''Getting map name...''], Sdk CallGetMap,
         Stdout [Str ''Connected to world: '', Str (GetName s)],
         Stdout [Str ''Getting blueprint library...''], Sdk CallGetBlueprintLibrary,
         Stdout [Str ''Finding vehicle blueprint...''], Sdk (CallFind ''vehicle.tesla.model3'')] @
        (if Find s ''vehicle.tesla.model3'' = Inr (Some (pointee bp))
         then [Stdout [Str ''Spawning Tesla Model 3'']]
         else [Sdk (CallFilter ''vehicle.*''), Stdout [Str ''Using vehicle: '', Str (GetId (pointee bp))]]) @
        [Stdout [Str ''Getting spawn points...''], Sdk CallGetRecommendedSpawnPoints,
         Stderr ''Error: No spawn points found'']"
      by blast
    show ?thesis
      by (rule exI [of _
        "[Stdout [Str ''Connecting to CARLA server: '', Str host, Str '':'', Num (unat port)],
         Sdk (CallClient host port), Sdk (CallSetTimeout 10),
         Stdout [Str ''Getting world information...''], Sdk CallGetWorld,
         Stdout [Str ''Getting map name...''], Sdk CallGetMap,
         Stdout [Str ''Connected to world: '', Str (GetName s)],
         Stdout [Str ''Getting blueprint library...''], Sdk CallGetBlueprintLibrary,
         Stdout [Str ''Finding vehicle blueprint...''], Sdk (CallFind ''vehicle.tesla.model3'')] @
        (if Find s ''vehicle.tesla.model3'' = Inr (Some (pointee bp))
         then [Stdout [Str ''Spawning Tesla Model 3'']]
         else [Sdk (CallFilter ''vehicle.*''), Stdout [Str ''Using vehicle: '', Str (GetId (pointee bp))]]) @
        [Stdout [Str ''Getting spawn points...''], Sdk CallGetRecommendedSpawnPoints]"],
        rule exI [of _ "''Error: No spawn points found''"]) (use f g in \<open>simp add: t\<close>)
  qed
qed

lemma filter_modifies_world_spawns: "filter modifies_world tr = [] \<Longrightarrow> spawns tr = []"
proof (induction tr)
  case Nil
  show ?case by (simp add: spawns_def)
next
  case (Cons ev tr)
  then have "modifies_world ev = False" and "filter modifies_world tr = []"
    by (auto split: if_splits)
  with Cons.IH show ?case
    by (cases ev rule: spawn_of.cases) (simp_all add: spawns_def)
qed

lemma filter_modifies_world_controls: "filter modifies_world tr = [] \<Longrightarrow> controls tr = []"
proof (induction tr)
  case Nil
  show ?case by (simp add: controls_def)
next
  case (Cons ev tr)
  then have "modifies_world ev = False" and "filter modifies_world tr = []"
    by (auto split: if_splits)
  with Cons.IH show ?case
    by (cases ev rule: control_of.cases) (simp_all add: controls_def)
qed

lemma spawns_append: "spawns (a @ b) = spawns a @ spawns b"
  by (simp add: spawns_def)

lemma controls_append: "controls (a @ b) = controls a @ controls b"
  by (simp add: controls_def)

subsection \<open>\<open>std::stoi\<close> on decimal literals, and the arguments\<close>

lemma isdigit_cases:
  "isdigit c \<longleftrightarrow> c = CHR ''0'' \<or> c = CHR ''1'' \<or> c = CHR ''2'' \<or> c = CHR ''3'' \<or> c = CHR ''4'' \<or>
     c = CHR ''5'' \<or> c = CHR ''6'' \<or> c = CHR ''7'' \<or> c = CHR ''8'' \<or> c = CHR ''9''"
  by (auto simp: isdigit_def)

lemma isdigit_facts:
  assumes "isdigit c"
  shows "\<not> isspace c" and "c \<noteq> CHR ''-''" and "c \<noteq> CHR ''+''" and "0 \<le> digit_val c"
  using assms by (auto simp: isdigit_cases isspace_def digit_val_def)

lemma foldl_digits_nonneg:
  "list_all isdigit ds \<Longrightarrow> 0 \<le> a \<Longrightarrow> 0 \<le> foldl (\<lambda>a c. 10 * a + digit_val c) a ds"
proof (induction ds arbitrary: a)
  case Nil
  then show ?case by simp
next
  case (Cons d ds)
  from Cons.prems have "0 \<le> 10 * a + digit_val d"
    using isdigit_facts(4) [of d] by simp
  with Cons show ?case by simp
qed

lemma dec_value_nonneg: "list_all isdigit ds \<Longrightarrow> 0 \<le> dec_value ds"
  by (simp add: dec_value_def foldl_digits_nonneg)

lemma stoi_u16_literal:
  assumes "is_u16_literal str"
  shows "stoi str = Inr (dec_value str)"
proof -
  from assms have ne: "str \<noteq> []" and ds: "list_all isdigit str" and lt: "dec_value str < 65536"
    by (simp_all add: is_u16_literal_def)
  from ne ds have h: "isdigit (hd str)" by (cases str) simp_all
  have 1: "dropWhile isspace str = str"
    using ne h isdigit_facts(1) [of "hd str"] by (cases str) simp_all
  have 2: "takeWhile isdigit str = str"
    using ds by (simp add: list_all_iff)
  from dec_value_nonneg [OF ds] lt ne h isdigit_facts(2,3) [of "hd str"]
  show ?thesis
    by (simp add: stoi_def 1 2 Let_def)
qed

lemma u16_literal_port:
  assumes "is_u16_literal str"
  shows "uint (word_of_int (dec_value str) :: 16 word) = dec_value str"
proof -
  from assms have ds: "list_all isdigit str" and lt: "dec_value str < 65536"
    by (simp_all add: is_u16_literal_def)
  from dec_value_nonneg [OF ds] lt show ?thesis
    by (simp add: uint_word_of_int take_bit_int_eq_self)
qed

lemma try_block_parse_throw:
  "snd (parse_args argv) = Inl (Throw e) \<Longrightarrow> try_block argv s = ([], Inl (Throw e))"
  using parse_args_fst [of argv]
  by (cases "parse_args argv") (simp add: try_block_def bnd_def)


subsection \<open>The reference that is handed to \<open>SpawnActor\<close>\<close>

lemma spawn_of_completed_run:
  assumes "snd (main argv s) = Exited 0"
  shows "\<exists>bp sp sps. snd (find_vehicle_bp s) = Inr bp \<and>
     GetRecommendedSpawnPoints s = Inr (sp # sps) \<and>
     spawns (fst (main argv s)) = [(dereference bp, sp)]"
  using completed_run [OF assms]
  by (auto simp: spawns_def concat_map_concat o_def)

lemma lookup_spawns_alive:
  assumes "snd (main argv s) = Exited 0"
    and "Find s ''vehicle.tesla.model3'' = Inr (Some b)"
  shows "\<exists>sp. spawns (fst (main argv s)) = [(Alive b, sp)]"
  using spawn_of_completed_run [OF assms(1)] find_vehicle_bp_found [OF assms(2)]
  by auto

lemma fallback_spawns_destroyed:
  assumes "snd (main argv s) = Exited 0"
    and "Find s ''vehicle.tesla.model3'' = Inr None"
    and "Filter s ''vehicle.*'' = Inr (b # bs)"
  shows "\<exists>sp. spawns (fst (main argv s)) = [(Destroyed b, sp)]"
  using spawn_of_completed_run [OF assms(1)] find_vehicle_bp_fallback [OF assms(2,3)]
  by auto

lemma mock_sdk_no_tesla_completes: "snd (main [''program''] mock_sdk_no_tesla) = Exited 0"
proof (rule run_completes [OF parse_args_program])
  show "snd (connect mock_sdk_no_tesla ''localhost'' 2000) = Inr ()"
    by (rule connect_mock) (simp_all add: mock_sdk_no_tesla_def)
  show "snd (find_vehicle_bp mock_sdk_no_tesla) =
      Inr (Pointer owned_by_vehicles (ActorBlueprint ''vehicle.audi.tt''))"
    by (simp add: find_vehicle_bp_def snd_bnd mock_sdk_no_tesla_def mock_sdk_def)
  show "snd (get_spawn_point mock_sdk_no_tesla) = Inr origin"
    by (simp add: get_spawn_point_def snd_bnd mock_sdk_no_tesla_def mock_sdk_def)
  show "snd (spawn_vehicle mock_sdk_no_tesla
      (Pointer owned_by_vehicles (ActorBlueprint ''vehicle.audi.tt'')) origin) = Inr 42"
    by (simp add: spawn_vehicle_def snd_bnd mock_sdk_no_tesla_def mock_sdk_def)
  show "snd (setup_spectator mock_sdk_no_tesla) = Inr ()"
    by (simp add: setup_spectator_def snd_bnd mock_sdk_no_tesla_def mock_sdk_def)
  show "snd (scenario mock_sdk_no_tesla) = Inr ()"
    by (rule scenario_ok) (simp_all add: tick_def snd_bnd mock_sdk_no_tesla_def mock_sdk_def)
qed

section \<open>The claims\<close>

subsection \<open>C1: the control messages of a completed run\<close>

text \<open>
  Claim C1. In every run that reaches completion (the process ends with \<open>std::exit(0)\<close>),
  the control messages emitted are, in this order: exactly 50 messages with throttle 0.5,
  steer 0 and brake 0 (the DRIVING phase), then exactly one message with throttle 0,
  steer 0 and brake 1 (entering BRAKING); there is no other control message.
\<close>

theorem controls_of_completed_run:
  assumes "snd (main argv s) = Exited 0"
  shows "controls (fst (main argv s)) =
           replicate 50 \<lparr>throttle = 0.5, steer = 0, brake = 0\<rparr> @
           [\<lparr>throttle = 0, steer = 0, brake = 1\<rparr>]"
  using completed_run [OF assms]
  by (auto simp: controls_def concat_map_concat concat_map_single map_replicate_const o_def
      drive_control_def brake_control_def)

theorem controls_of_completed_run_witness:
  "snd (main [''program''] mock_sdk) = Exited 0 \<and>
   controls (fst (main [''program''] mock_sdk)) =
     replicate 50 \<lparr>throttle = 0.5, steer = 0, brake = 0\<rparr> @
     [\<lparr>throttle = 0, steer = 0, brake = 1\<rparr>]"
  using controls_of_completed_run [of "[''program'']" mock_sdk] mock_sdk_completes by simp

subsection \<open>C2: what a failure looks like\<close>

text \<open>
  Claim C2 says that every failure ends with a single line on stderr that begins with
  \<open>Error occurred:\<close>. It fails on the resource-absence paths: without any vehicle
  blueprint the run has status 1 and its only line on stderr is
  \<open>Error: No vehicle blueprints found\<close>.
\<close>

theorem failure_diagnostic_counterexample:
  "status (snd (main [''program''] mock_sdk_no_vehicles)) = 1 \<and>
   stderr_lines (fst (main [''program''] mock_sdk_no_vehicles)) =
     [''Error: No vehicle blueprints found''] \<and>
   \<not> prefix ''Error occurred:'' ''Error: No vehicle blueprints found''"
proof -
  have c: "snd (connect (mock_sdk\<lparr>Find := \<lambda>_. Inr None, Filter := \<lambda>_. Inr []\<rparr>) ''localhost'' 2000) =
      Inr ()"
    by (rule connect_mock) simp_all
  have r: "snd (main [''program''] (mock_sdk\<lparr>Find := \<lambda>_. Inr None, Filter := \<lambda>_. Inr []\<rparr>)) =
      Returned 1"
    by (rule returns_when_no_blueprint [OF parse_args_program c]) simp_all
  from returned_run_shape [OF r] obtain log where
    t: "fst (main [''program''] (mock_sdk\<lparr>Find := \<lambda>_. Inr None, Filter := \<lambda>_. Inr []\<rparr>)) =
        log @ [Stderr ''Error: No vehicle blueprints found'']" and q: "list_all quiet log"
    by (auto simp: find_vehicle_bp_none)
  from t quiet_stderr_lines [OF q]
  have "stderr_lines (fst (main [''program''] (mock_sdk\<lparr>Find := \<lambda>_. Inr None, Filter := \<lambda>_. Inr []\<rparr>))) =
     [''Error: No vehicle blueprints found'']"
    by (simp add: stderr_lines_append) (simp add: stderr_lines_def)
  with r show ?thesis by (simp add: mock_sdk_no_vehicles_def)
qed

text \<open>
  Claim C2, amended. Every run that does not end with \<open>std::exit(0)\<close> has status 1 and
  consists of a log without any line on stderr, followed by a single diagnostic line on
  stderr, after which nothing happens (in particular no control message is emitted).
  Either an exception was thrown in the \<open>try\<close> block: then the log is what the block did
  up to the throw, the line is \<open>Error occurred: \<close> followed by the exception's message, and
  the process ends with \<open>std::exit(1)\<close>. Or the run is on a resource-absence path: then the
  line is \<open>Error: No vehicle blueprints found\<close> or \<open>Error: No spawn points found\<close> and
  \<open>main\<close> returns 1.
\<close>

theorem failure_behaviour:
  "snd (main argv s) \<noteq> Exited 0 \<longrightarrow>
     status (snd (main argv s)) = 1 \<and>
     (\<exists>log d. fst (main argv s) = log @ [Stderr d] \<and> stderr_lines log = [] \<and>
        ((\<exists>e. snd (try_block argv s) = Inl (Throw e) \<and> log = fst (try_block argv s) \<and>
              d = ''Error occurred: '' @ what e \<and> snd (main argv s) = Exited 1)
         \<or> snd (main argv s) = Returned 1 \<and>
           (d = ''Error: No vehicle blueprints found'' \<or> d = ''Error: No spawn points found'')))"
proof
  assume ne: "snd (main argv s) \<noteq> Exited 0"
  show "status (snd (main argv s)) = 1 \<and>
     (\<exists>log d. fst (main argv s) = log @ [Stderr d] \<and> stderr_lines log = [] \<and>
        ((\<exists>e. snd (try_block argv s) = Inl (Throw e) \<and> log = fst (try_block argv s) \<and>
              d = ''Error occurred: '' @ what e \<and> snd (main argv s) = Exited 1)
         \<or> snd (main argv s) = Returned 1 \<and>
           (d = ''Error: No vehicle blueprints found'' \<or> d = ''Error: No spawn points found'')))"
  proof (cases "snd (main argv s)")
    case (Exited n)
    with ne have "n \<noteq> 0" by simp
    from main_Exited_1 [OF Exited this] obtain e where
      e: "snd (try_block argv s) = Inl (Throw e)" by blast
    then have "snd (try_block argv s) \<noteq> Inl (Stop (Returned 1))" by simp
    from quiet_stderr_lines [OF try_block_quiet [OF this]]
    have q: "stderr_lines (fst (try_block argv s)) = []" .
    from main_Throw [OF e] q e show ?thesis by simp
  next
    case (Returned n)
    from returned_run [OF Returned] have n: "n = 1" by simp
    from returned_run_shape [OF Returned] obtain log d where
      "fst (main argv s) = log @ [Stderr d]" "list_all quiet log"
      "d = ''Error: No vehicle blueprints found'' \<or> d = ''Error: No spawn points found''"
      by blast
    with quiet_stderr_lines [of log] Returned n show ?thesis by auto
  qed
qed

theorem failure_behaviour_witness:
  "snd (main [''program''] mock_sdk_unreachable) \<noteq> Exited 0 \<and>
   main [''program''] mock_sdk_unreachable =
     ([Stdout [Str ''Connecting to CARLA server: '', Str ''localhost'', Str '':'', Num 2000],
       Sdk (CallClient ''localhost'' 2000), Sdk (CallSetTimeout 10),
       Stdout [Str ''Getting world information...''], Sdk CallGetWorld,
       Stderr ''Error occurred: time-out''], Exited 1)"
proof -
  have t: "try_block [''program''] (mock_sdk\<lparr>GetWorld := Inl (sdk_error ''time-out'')\<rparr>) =
     ([Stdout [Str ''Connecting to CARLA server: '', Str ''localhost'', Str '':'', Num 2000],
       Sdk (CallClient ''localhost'' 2000), Sdk (CallSetTimeout 10),
       Stdout [Str ''Getting world information...''], Sdk CallGetWorld],
      Inl (Throw (sdk_error ''time-out'')))"
    by (simp add: try_block_def parse_args_program connect_def bnd_def cout_def sdk_call_def
        mock_sdk_def)
  then have m: "snd (main [''program''] (mock_sdk\<lparr>GetWorld := Inl (sdk_error ''time-out'')\<rparr>)) =
      Exited 1"
    by (simp add: main_def)
  from failure_behaviour [of "[''program'']" "mock_sdk\<lparr>GetWorld := Inl (sdk_error ''time-out'')\<rparr>"]
    m t
  have "fst (main [''program''] (mock_sdk\<lparr>GetWorld := Inl (sdk_error ''time-out'')\<rparr>)) =
     [Stdout [Str ''Connecting to CARLA server: '', Str ''localhost'', Str '':'', Num 2000],
       Sdk (CallClient ''localhost'' 2000), Sdk (CallSetTimeout 10),
       Stdout [Str ''Getting world information...''], Sdk CallGetWorld,
       Stderr ''Error occurred: time-out'']"
    by auto
  with m show ?thesis by (simp add: prod_eq_iff mock_sdk_unreachable_def)
qed

subsection \<open>C3: the transform of the spectator\<close>

text \<open>
  Claim C3. The transform of the observer (the spectator) is computed from a single sample
  \<open>T\<close> of the vehicle's transform, with forward vector \<open>f\<close>: its location is
  \<open>T.location - 7 * (f.x, f.y, 0) + (0, 0, 3)\<close>, its rotation has pitch \<open>-10\<close> and the yaw and
  roll of \<open>T\<close>. In a completed run \<open>GetTransform\<close> is called once and the spectator is
  placed once, at that transform. For a vehicle at location \<open>(0, 0, 0)\<close> with rotation
  \<open>(0, 0, 0)\<close> and forward vector \<open>(1, 0, 0)\<close> the observer is at \<open>(-7, 0, 3)\<close> with
  pitch \<open>-10\<close>, yaw \<open>0\<close> and roll \<open>0\<close>.
\<close>

theorem spectator_placement:
  "(snd (main argv s) = Exited 0 \<longrightarrow>
      (\<exists>T. GetTransform s = Inr T \<and>
           filter (\<lambda>ev. ev = Sdk CallGetTransform) (fst (main argv s)) = [Sdk CallGetTransform] \<and>
           placements (fst (main argv s)) = [spectator_transform T (GetForwardVector s T)])) \<and>
   spectator_transform T f =
     \<lparr>location = \<lparr>vec_x = vec_x (location T) - 7 * vec_x f + 0,
                  vec_y = vec_y (location T) - 7 * vec_y f + 0,
                  vec_z = vec_z (location T) - 7 * 0 + 3\<rparr>,
      rotation = \<lparr>pitch = - 10, yaw = yaw (rotation T), roll = roll (rotation T)\<rparr>\<rparr> \<and>
   spectator_transform
     \<lparr>location = \<lparr>vec_x = 0, vec_y = 0, vec_z = 0\<rparr>,
      rotation = \<lparr>pitch = 0, yaw = 0, roll = 0\<rparr>\<rparr>
     \<lparr>vec_x = 1, vec_y = 0, vec_z = 0\<rparr> =
     \<lparr>location = \<lparr>vec_x = - 7, vec_y = 0, vec_z = 3\<rparr>,
      rotation = \<lparr>pitch = - 10, yaw = 0, roll = 0\<rparr>\<rparr>"
proof (intro conjI impI)
  assume "snd (main argv s) = Exited 0"
  from completed_run [OF this]
  show "\<exists>T. GetTransform s = Inr T \<and>
           filter (\<lambda>ev. ev = Sdk CallGetTransform) (fst (main argv s)) = [Sdk CallGetTransform] \<and>
           placements (fst (main argv s)) = [spectator_transform T (GetForwardVector s T)]"
    by (auto simp: placements_def filter_concat concat_map_concat o_def)
next
  show "spectator_transform T f =
     \<lparr>location = \<lparr>vec_x = vec_x (location T) - 7 * vec_x f + 0,
                  vec_y = vec_y (location T) - 7 * vec_y f + 0,
                  vec_z = vec_z (location T) - 7 * 0 + 3\<rparr>,
      rotation = \<lparr>pitch = - 10, yaw = yaw (rotation T), roll = roll (rotation T)\<rparr>\<rparr>"
    by (simp add: spectator_transform_def Let_def)
next
  show "spectator_transform
     \<lparr>location = \<lparr>vec_x = 0, vec_y = 0, vec_z = 0\<rparr>,
      rotation = \<lparr>pitch = 0, yaw = 0, roll = 0\<rparr>\<rparr>
     \<lparr>vec_x = 1, vec_y = 0, vec_z = 0\<rparr> =
     \<lparr>location = \<lparr>vec_x = - 7, vec_y = 0, vec_z = 3\<rparr>,
      rotation = \<lparr>pitch = - 10, yaw = 0, roll = 0\<rparr>\<rparr>"
    by (simp add: spectator_transform_def Let_def)
qed

theorem spectator_placement_witness:
  "snd (main [''program''] mock_sdk) = Exited 0 \<and>
   placements (fst (main [''program''] mock_sdk)) =
     [\<lparr>location = \<lparr>vec_x = - 7, vec_y = 0, vec_z = 3\<rparr>,
       rotation = \<lparr>pitch = - 10, yaw = 0, roll = 0\<rparr>\<rparr>]"
  using spectator_placement [of "[''program'']" mock_sdk origin "\<lparr>vec_x = 1, vec_y = 0, vec_z = 0\<rparr>"]
    mock_sdk_completes
  by (auto simp: mock_sdk_def origin_def)

subsection \<open>C4: the vehicle blueprint\<close>

text \<open>
  Claim C4. Blueprint selection: (1) exact lookup of \<open>vehicle.tesla.model3\<close>; (2) if the
  lookup fails, the first result of filtering the library by \<open>vehicle.*\<close> is used; (3) if
  the filter result is empty, the program fails with \<open>Error: No vehicle blueprints found\<close>
  and status 1. The code does not do (2). It selects element 0 of the filter result, but
  keeps only its address; the filtered library is destroyed at line 65, and at line 86
  \<open>SpawnActor\<close> is handed a reference to a destroyed blueprint. With a library that has no
  \<open>vehicle.tesla.model3\<close> and whose filter result starts with \<open>vehicle.audi.tt\<close>, the
  pointer selected points into \<open>vehicles\<close>, and the run asks to spawn what is left of
  \<open>vehicle.audi.tt\<close> after its destruction; on the lookup path, with the cooperative
  SDK, the blueprint spawned is alive.
\<close>

theorem fallback_blueprint_destroyed:
  "Find mock_sdk_no_tesla ''vehicle.tesla.model3'' = Inr None \<and>
   Filter mock_sdk_no_tesla ''vehicle.*'' =
     Inr [ActorBlueprint ''vehicle.audi.tt'', ActorBlueprint ''vehicle.tesla.model3''] \<and>
   snd (find_vehicle_bp mock_sdk_no_tesla) =
     Inr (Pointer owned_by_vehicles (ActorBlueprint ''vehicle.audi.tt'')) \<and>
   spawns (fst (main [''program''] mock_sdk_no_tesla)) =
     [(Destroyed (ActorBlueprint ''vehicle.audi.tt''), origin)] \<and>
   spawns (fst (main [''program''] mock_sdk)) =
     [(Alive (ActorBlueprint ''vehicle.tesla.model3''), origin)]"
proof -
  have f1: "Find mock_sdk_no_tesla ''vehicle.tesla.model3'' = Inr None"
    by (simp add: mock_sdk_no_tesla_def)
  have f2: "Filter mock_sdk_no_tesla ''vehicle.*'' =
      Inr [ActorBlueprint ''vehicle.audi.tt'', ActorBlueprint ''vehicle.tesla.model3'']"
    by (simp add: mock_sdk_no_tesla_def mock_sdk_def)
  have f3: "Find mock_sdk ''vehicle.tesla.model3'' =
      Inr (Some (ActorBlueprint ''vehicle.tesla.model3''))"
    by (simp add: mock_sdk_def)
  have g1: "GetRecommendedSpawnPoints mock_sdk_no_tesla = Inr [origin]"
    by (simp add: mock_sdk_no_tesla_def mock_sdk_def)
  have g2: "GetRecommendedSpawnPoints mock_sdk = Inr [origin]"
    by (simp add: mock_sdk_def)
  from find_vehicle_bp_fallback [OF f1 f2]
  have p1: "snd (find_vehicle_bp mock_sdk_no_tesla) =
      Inr (Pointer owned_by_vehicles (ActorBlueprint ''vehicle.audi.tt''))"
    by simp
  from find_vehicle_bp_found [OF f3]
  have p2: "snd (find_vehicle_bp mock_sdk) =
      Inr (Pointer owned_by_blueprint_library (ActorBlueprint ''vehicle.tesla.model3''))"
    by simp
  from spawn_of_completed_run [OF mock_sdk_no_tesla_completes] p1 g1
  have s1: "spawns (fst (main [''program''] mock_sdk_no_tesla)) =
      [(Destroyed (ActorBlueprint ''vehicle.audi.tt''), origin)]"
    by auto
  from spawn_of_completed_run [OF mock_sdk_completes] p2 g2
  have s2: "spawns (fst (main [''program''] mock_sdk)) =
      [(Alive (ActorBlueprint ''vehicle.tesla.model3''), origin)]"
    by auto
  from f1 f2 p1 s1 s2 show ?thesis by simp
qed

subsection \<open>C5: teardown\<close>

text \<open>
  Claim C5. No run issues an explicit destroy call. Every run with status 0 ends with an
  immediate \<open>std::exit(0)\<close> (it does not return from \<open>main\<close>), and the last things it
  does before are: the line \<open>Cleaning up...\<close>, the release of the vehicle handle, the
  release of the actor handle, and the line \<open>Scenario completed!\<close>.
\<close>

theorem teardown_without_destroy:
  "Sdk CallDestroy \<notin> set (fst (main argv s)) \<and>
   (status (snd (main argv s)) = 0 \<longrightarrow>
      snd (main argv s) = Exited 0 \<and>
      (\<exists>log. list_all quiet log \<and> fst (main argv s) =
         log @ [Stdout [Str (CHR 0x0A # ''Cleaning up...'')], Reset vehicle_handle,
                Reset actor_handle, Stdout [Str ''Scenario completed!'']]))"
proof (intro conjI impI)
  show "Sdk CallDestroy \<notin> set (fst (main argv s))" by (rule no_destroy)
next
  assume "status (snd (main argv s)) = 0"
  then show "snd (main argv s) = Exited 0" by (rule status_0)
next
  assume "status (snd (main argv s)) = 0"
  then have e: "snd (main argv s) = Exited 0" by (rule status_0)
  from main_Exited_0 [OF e]
  have t: "snd (try_block argv s) = Inl (Stop (Exited 0))"
    and m: "fst (main argv s) = fst (try_block argv s)" by simp_all
  from t have "snd (try_block argv s) \<noteq> Inl (Stop (Returned 1))" by simp
  from try_block_quiet [OF this] have q: "list_all quiet (fst (try_block argv s))" .
  from try_block_Exited [OF t] obtain log where
    l: "fst (try_block argv s) = log @ fst cleanup" by (metis append_assoc)
  with q have "list_all quiet log" by simp
  with l m show "\<exists>log. list_all quiet log \<and> fst (main argv s) =
         log @ [Stdout [Str (CHR 0x0A # ''Cleaning up...'')], Reset vehicle_handle,
                Reset actor_handle, Stdout [Str ''Scenario completed!'']]"
    by (auto simp: cleanup_eq)
qed

theorem teardown_without_destroy_witness:
  "status (snd (main [''program''] mock_sdk)) = 0 \<and>
   snd (main [''program''] mock_sdk) = Exited 0 \<and>
   Sdk CallDestroy \<notin> set (fst (main [''program''] mock_sdk))"
  using teardown_without_destroy [of "[''program'']" mock_sdk] mock_sdk_completes by simp

subsection \<open>C6: the port\<close>

text \<open>
  Claim C6 says that the second argument is accepted if and only if it parses as an
  unsigned 16-bit integer. It fails at \<open>70000\<close>: this is no unsigned 16-bit integer, but
  the program goes on with port \<open>70000 mod 65536 = 4464\<close> and, with a cooperative SDK,
  runs to completion.
\<close>

theorem port_parsing_counterexample:
  "\<not> is_u16_literal ''70000'' \<and>
   parse_args [''program'', ''10.0.0.5'', ''70000''] = ([], Inr (''10.0.0.5'', 4464)) \<and>
   snd (main [''program'', ''10.0.0.5'', ''70000''] mock_sdk) = Exited 0"
proof -
  have n: "\<not> is_u16_literal ''70000''"
    by (simp add: is_u16_literal_def dec_value_def digit_val_def)
  have p: "parse_args [''program'', ''10.0.0.5'', ''70000''] = ([], Inr (''10.0.0.5'', 4464))"
    by (simp add: parse_args_def ret_def stoi_def isspace_def isdigit_def dec_value_def
        digit_val_def)
  from n p mock_sdk_completes_from [OF p] show ?thesis by simp
qed

text \<open>
  Claim C6, amended. The second argument, when present, is converted by \<open>std::stoi\<close> and
  the result is narrowed to \<open>uint16_t\<close>. An argument that parses as an unsigned 16-bit
  integer is accepted and the port is its value. Whenever \<open>std::stoi\<close> returns a value,
  the argument is accepted and the port is that value modulo 65536. Whenever \<open>std::stoi\<close>
  throws, as it does for \<open>notanumber\<close>, the program fails during port parsing: it does
  nothing but write the line \<open>Error occurred: ...\<close> to stderr and exit with status 1.
\<close>

theorem port_parsing:
  "(is_u16_literal a \<longrightarrow>
      parse_args (p # h # a # rest) = ([], Inr (h, word_of_int (dec_value a))) \<and>
      uint (word_of_int (dec_value a) :: 16 word) = dec_value a) \<and>
   (stoi a = Inr v \<longrightarrow>
      parse_args (p # h # a # rest) = ([], Inr (h, word_of_int v)) \<and>
      uint (word_of_int v :: 16 word) = v mod 65536) \<and>
   (stoi a = Inl e \<longrightarrow>
      main (p # h # a # rest) s = ([Stderr (''Error occurred: '' @ what e)], Exited 1)) \<and>
   stoi ''notanumber'' = Inl invalid_argument"
proof (intro conjI impI)
  assume l: "is_u16_literal a"
  from stoi_u16_literal [OF l]
  show "parse_args (p # h # a # rest) = ([], Inr (h, word_of_int (dec_value a)))"
    by (simp add: parse_args_def ret_def)
  from l show "uint (word_of_int (dec_value a) :: 16 word) = dec_value a"
    by (rule u16_literal_port)
next
  assume "stoi a = Inr v"
  then show "parse_args (p # h # a # rest) = ([], Inr (h, word_of_int v))"
    by (simp add: parse_args_def ret_def)
  show "uint (word_of_int v :: 16 word) = v mod 65536"
    by (simp add: uint_word_of_int take_bit_eq_mod)
next
  assume "stoi a = Inl e"
  then have "snd (parse_args (p # h # a # rest)) = Inl (Throw e)"
    by (simp add: parse_args_def throw_def)
  from try_block_parse_throw [OF this]
  show "main (p # h # a # rest) s = ([Stderr (''Error occurred: '' @ what e)], Exited 1)"
    by (simp add: main_def)
next
  show "stoi ''notanumber'' = Inl invalid_argument"
    by (simp add: stoi_def isspace_def isdigit_def)
qed

theorem port_parsing_witness:
  "is_u16_literal ''3000'' \<and>
   parse_args [''program'', ''10.0.0.5'', ''3000''] = ([], Inr (''10.0.0.5'', 3000)) \<and>
   stoi ''-1'' = Inr (- 1) \<and>
   parse_args [''program'', ''10.0.0.5'', ''-1''] = ([], Inr (''10.0.0.5'', 65535)) \<and>
   stoi ''notanumber'' = Inl invalid_argument \<and>
   main [''program'', ''10.0.0.5'', ''notanumber''] mock_sdk =
     ([Stderr ''Error occurred: stoi''], Exited 1)"
proof -
  have l: "is_u16_literal ''3000''"
    by (simp add: is_u16_literal_def isdigit_def dec_value_def digit_val_def)
  have v: "dec_value ''3000'' = 3000"
    by (simp add: dec_value_def digit_val_def)
  have m: "stoi ''-1'' = Inr (- 1)"
    by (simp add: stoi_def isspace_def isdigit_def dec_value_def digit_val_def)
  note 1 = port_parsing [of "''3000''" "''program''" "''10.0.0.5''" "[]" 0 invalid_argument mock_sdk]
  note 2 = port_parsing [of "''-1''" "''program''" "''10.0.0.5''" "[]" "- 1" invalid_argument
      mock_sdk]
  note 3 = port_parsing [of "''notanumber''" "''program''" "''10.0.0.5''" "[]" 0 invalid_argument
      mock_sdk]
  from 1 l v have a: "parse_args [''program'', ''10.0.0.5'', ''3000''] = ([], Inr (''10.0.0.5'', 3000))"
    by simp
  from 2 m have b: "parse_args [''program'', ''10.0.0.5'', ''-1''] = ([], Inr (''10.0.0.5'', 65535))"
    by simp
  from 3 have c: "stoi ''notanumber'' = Inl invalid_argument" by simp
  with 3 have d: "main [''program'', ''10.0.0.5'', ''notanumber''] mock_sdk =
     ([Stderr ''Error occurred: stoi''], Exited 1)"
    by simp
  from l a m b c d show ?thesis by simp
qed

subsection \<open>C7: the arguments\<close>



subsection \<open>C8: telemetry\<close>

text \<open>
  Claim C8. A tick that completes has emitted its control message, then read the location
  once, then read the velocity once, then written the line of the log with that location
  and with the speed \<open>3.6 * sqrt (vx^2 + vy^2 + vz^2)\<close> of that velocity \<open>(vx, vy, vz)\<close>,
  then slept 100 ms. In a completed run, the control messages, the telemetry reads and the
  telemetry lines of the log are, in order: for each of the 50 ticks \<open>i\<close>, the control
  message of the tick, then one read of the location, then one read of the velocity, then
  the line of the log with that location and with the speed
  \<open>3.6 * sqrt (vx^2 + vy^2 + vz^2)\<close> of that velocity \<open>(vx, vy, vz)\<close>; and after the 50
  ticks the brake message.
\<close>

theorem telemetry_of_completed_run:
  "(snd (tick s c i) = Inr () \<longrightarrow>
      (\<exists>l v. GetLocation s i = Inr l \<and> GetVelocity s i = Inr v \<and>
         fst (tick s c i) =
           [Sdk (CallApplyControl c), Sdk CallGetLocation, Sdk CallGetVelocity,
            Stdout [Str ''Time '', Flt (real i * 0.1), Str ''s - '',
                    Str ''Position: ('', Flt (vec_x l), Str '', '',
                    Flt (vec_y l), Str '', '', Flt (vec_z l), Str '') '',
                    Str ''Speed: '',
                    Flt (3.6 * sqrt ((vec_x v)\<^sup>2 + (vec_y v)\<^sup>2 + (vec_z v)\<^sup>2)),
                    Str '' km/h''],
            Sleep 100])) \<and>
   (snd (main argv s) = Exited 0 \<longrightarrow>
      (\<exists>loc vel.
         (\<forall>i<50. GetLocation s i = Inr (loc i) \<and> GetVelocity s i = Inr (vel i)) \<and>
         filter is_tick_event (fst (main argv s)) =
           concat (map (\<lambda>i.
             [Sdk (CallApplyControl drive_control), Sdk CallGetLocation, Sdk CallGetVelocity,
              Stdout [Str ''Time '', Flt (real i * 0.1), Str ''s - '',
                      Str ''Position: ('', Flt (vec_x (loc i)), Str '', '',
                      Flt (vec_y (loc i)), Str '', '', Flt (vec_z (loc i)), Str '') '',
                      Str ''Speed: '',
                      Flt (3.6 * sqrt ((vec_x (vel i))\<^sup>2 + (vec_y (vel i))\<^sup>2 +
                                       (vec_z (vel i))\<^sup>2)),
                      Str '' km/h'']]) [0..<50]) @
           [Sdk (CallApplyControl brake_control)]))"
proof (intro conjI impI)
  assume "snd (tick s c i) = Inr ()"
  from tick_Inr [OF this]
  show "\<exists>l v. GetLocation s i = Inr l \<and> GetVelocity s i = Inr v \<and>
         fst (tick s c i) =
           [Sdk (CallApplyControl c), Sdk CallGetLocation, Sdk CallGetVelocity,
            Stdout [Str ''Time '', Flt (real i * 0.1), Str ''s - '',
                    Str ''Position: ('', Flt (vec_x l), Str '', '',
                    Flt (vec_y l), Str '', '', Flt (vec_z l), Str '') '',
                    Str ''Speed: '',
                    Flt (3.6 * sqrt ((vec_x v)\<^sup>2 + (vec_y v)\<^sup>2 + (vec_z v)\<^sup>2)),
                    Str '' km/h''],
            Sleep 100]"
    by (auto simp: speed_of_norm)
next
  assume assms: "snd (main argv s) = Exited 0"
  show "\<exists>loc vel.
         (\<forall>i<50. GetLocation s i = Inr (loc i) \<and> GetVelocity s i = Inr (vel i)) \<and>
         filter is_tick_event (fst (main argv s)) =
           concat (map (\<lambda>i.
             [Sdk (CallApplyControl drive_control), Sdk CallGetLocation, Sdk CallGetVelocity,
              Stdout [Str ''Time '', Flt (real i * 0.1), Str ''s - '',
                      Str ''Position: ('', Flt (vec_x (loc i)), Str '', '',
                      Flt (vec_y (loc i)), Str '', '', Flt (vec_z (loc i)), Str '') '',
                      Str ''Speed: '',
                      Flt (3.6 * sqrt ((vec_x (vel i))\<^sup>2 + (vec_y (vel i))\<^sup>2 +
                                       (vec_z (vel i))\<^sup>2)),
                      Str '' km/h'']]) [0..<50]) @
           [Sdk (CallApplyControl brake_control)]"
  proof (intro exI conjI)
    from completed_run [OF assms]
    show "\<forall>i<50. GetLocation s i = Inr (projr (GetLocation s i)) \<and>
                  GetVelocity s i = Inr (projr (GetVelocity s i))"
      by blast
  next
    from completed_run [OF assms]
    show "filter is_tick_event (fst (main argv s)) =
         concat (map (\<lambda>i.
           [Sdk (CallApplyControl drive_control), Sdk CallGetLocation, Sdk CallGetVelocity,
            Stdout [Str ''Time '', Flt (real i * 0.1), Str ''s - '',
                    Str ''Position: ('', Flt (vec_x (projr (GetLocation s i))), Str '', '',
                    Flt (vec_y (projr (GetLocation s i))), Str '', '',
                    Flt (vec_z (projr (GetLocation s i))), Str '') '',
                    Str ''Speed: '',
                    Flt (3.6 * sqrt ((vec_x (projr (GetVelocity s i)))\<^sup>2 +
                                     (vec_y (projr (GetVelocity s i)))\<^sup>2 +
                                     (vec_z (projr (GetVelocity s i)))\<^sup>2)),
                    Str '' km/h'']]) [0..<50]) @
         [Sdk (CallApplyControl brake_control)]"
      by (auto simp: filter_concat o_def speed_of_norm)
  qed
qed

theorem telemetry_of_completed_run_witness:
  "snd (main [''program''] mock_sdk) = Exited 0 \<and>
   filter is_tick_event (fst (main [''program''] mock_sdk)) =
     concat (map (\<lambda>i.
       [Sdk (CallApplyControl drive_control), Sdk CallGetLocation, Sdk CallGetVelocity,
        Stdout [Str ''Time '', Flt (real i * 0.1), Str ''s - '',
                Str ''Position: ('', Flt 0, Str '', '', Flt 0, Str '', '', Flt 0, Str '') '',
                Str ''Speed: '', Flt 18, Str '' km/h'']]) [0..<50]) @
     [Sdk (CallApplyControl brake_control)]"
proof -
  have r: "sqrt 25 = (5 :: real)"
    using real_sqrt_abs [of 5] by simp
  note t = telemetry_of_completed_run [where s = mock_sdk and argv = "[''program'']",
      THEN conjunct2, THEN mp, OF mock_sdk_completes]
  from t obtain loc vel where
    lv: "\<forall>i<50. GetLocation mock_sdk i = Inr (loc i) \<and> GetVelocity mock_sdk i = Inr (vel i)" and
    tr: "filter is_tick_event (fst (main [''program''] mock_sdk)) =
       concat (map (\<lambda>i.
         [Sdk (CallApplyControl drive_control), Sdk CallGetLocation, Sdk CallGetVelocity,
          Stdout [Str ''Time '', Flt (real i * 0.1), Str ''s - '',
                  Str ''Position: ('', Flt (vec_x (loc i)), Str '', '',
                  Flt (vec_y (loc i)), Str '', '', Flt (vec_z (loc i)), Str '') '',
                  Str ''Speed: '',
                  Flt (3.6 * sqrt ((vec_x (vel i))\<^sup>2 + (vec_y (vel i))\<^sup>2 + (vec_z (vel i))\<^sup>2)),
                  Str '' km/h'']]) [0..<50]) @
       [Sdk (CallApplyControl brake_control)]"
    by (elim exE conjE)
  from lv have l: "\<forall>i\<in>set [0..<50]. loc i = location origin"
    and v: "\<forall>i\<in>set [0..<50]. vel i = \<lparr>vec_x = 3, vec_y = 4, vec_z = 0\<rparr>"
    by (simp_all add: mock_sdk_def)
  have eq: "map (\<lambda>i.
         [Sdk (CallApplyControl drive_control), Sdk CallGetLocation, Sdk CallGetVelocity,
          Stdout [Str ''Time '', Flt (real i * 0.1), Str ''s - '',
                  Str ''Position: ('', Flt (vec_x (loc i)), Str '', '',
                  Flt (vec_y (loc i)), Str '', '', Flt (vec_z (loc i)), Str '') '',
                  Str ''Speed: '',
                  Flt (3.6 * sqrt ((vec_x (vel i))\<^sup>2 + (vec_y (vel i))\<^sup>2 + (vec_z (vel i))\<^sup>2)),
                  Str '' km/h'']]) [0..<50] =
       map (\<lambda>i.
       [Sdk (CallApplyControl drive_control), Sdk CallGetLocation, Sdk CallGetVelocity,
        Stdout [Str ''Time '', Flt (real i * 0.1), Str ''s - '',
                Str ''Position: ('', Flt 0, Str '', '', Flt 0, Str '', '', Flt 0, Str '') '',
                Str ''Speed: '', Flt 18, Str '' km/h'']]) [0..<50]"
    by (rule map_cong [OF refl]) (simp add: l v origin_def r)
  show ?thesis
    by (simp only: tr eq mock_sdk_completes simp_thms)
qed

subsection \<open>C9: the spawn point\<close>

text \<open>
  Claim C9. The spawn transform is the element with index 0 of the map's list of
  recommended spawn points: the spawn-point section yields it, and a completed run issues
  exactly one spawn request, with it. An empty list is fatal: the program writes
  \<open>Error: No spawn points found\<close> to stderr as its last action and ends with status 1,
  without a spawn request.
\<close>

theorem spawn_point_selection:
  "(GetRecommendedSpawnPoints s = Inr sps \<and> sps \<noteq> [] \<longrightarrow>
      snd (get_spawn_point s) = Inr (sps ! 0)) \<and>
   (snd (main argv s) = Exited 0 \<longrightarrow>
      (\<exists>bp sps. GetRecommendedSpawnPoints s = Inr sps \<and> sps \<noteq> [] \<and>
         spawns (fst (main argv s)) = [(bp, sps ! 0)])) \<and>
   (parse_args argv = ([], Inr (host, port)) \<and> snd (connect s host port) = Inr () \<and>
    snd (find_vehicle_bp s) = Inr bp \<and> GetRecommendedSpawnPoints s = Inr [] \<longrightarrow>
      snd (main argv s) = Returned 1 \<and>
      stderr_lines (fst (main argv s)) = [''Error: No spawn points found''] \<and>
      last (fst (main argv s)) = Stderr ''Error: No spawn points found'' \<and>
      spawns (fst (main argv s)) = [])"
proof (intro conjI impI)
  assume a: "GetRecommendedSpawnPoints s = Inr sps \<and> sps \<noteq> []"
  then obtain sp sps' where "sps = sp # sps'" by (cases sps) auto
  with a get_spawn_point_first [of s sp sps']
  show "snd (get_spawn_point s) = Inr (sps ! 0)" by simp
next
  assume "snd (main argv s) = Exited 0"
  from completed_run [OF this] obtain bp sp sps where
    g: "GetRecommendedSpawnPoints s = Inr (sp # sps)" and
    t: "spawns (fst (main argv s)) = [(bp, sp)]"
    by (auto simp: spawns_def concat_map_concat o_def)
  show "\<exists>bp sps. GetRecommendedSpawnPoints s = Inr sps \<and> sps \<noteq> [] \<and>
         spawns (fst (main argv s)) = [(bp, sps ! 0)]"
    by (rule exI [of _ bp], rule exI [of _ "sp # sps"]) (simp add: g t)
next
  assume a: "parse_args argv = ([], Inr (host, port)) \<and> snd (connect s host port) = Inr () \<and>
    snd (find_vehicle_bp s) = Inr bp \<and> GetRecommendedSpawnPoints s = Inr []"
  then have r: "snd (main argv s) = Returned 1"
    using returns_when_no_spawn_point [of argv host port s bp] by simp
  then show "snd (main argv s) = Returned 1" .
  from a have nf: "\<not> (Find s ''vehicle.tesla.model3'' = Inr None \<and> Filter s ''vehicle.*'' = Inr [])"
    using find_vehicle_bp_none [of s] by auto
  from returned_run_shape [OF r] nf obtain log where
    t: "fst (main argv s) = log @ [Stderr ''Error: No spawn points found'']" and
    q: "list_all quiet log" and w: "filter modifies_world log = []"
    by blast
  from t quiet_stderr_lines [OF q]
  show "stderr_lines (fst (main argv s)) = [''Error: No spawn points found'']"
    by (simp add: stderr_lines_append) (simp add: stderr_lines_def)
  from t show "last (fst (main argv s)) = Stderr ''Error: No spawn points found''" by simp
  from t filter_modifies_world_spawns [OF w]
  show "spawns (fst (main argv s)) = []"
    by (simp add: spawns_append) (simp add: spawns_def)
qed

theorem spawn_point_selection_witness:
  "snd (get_spawn_point mock_sdk) = Inr origin \<and>
   snd (main [''program''] mock_sdk) = Exited 0 \<and>
   (\<exists>bp. spawns (fst (main [''program''] mock_sdk)) = [(bp, origin)]) \<and>
   GetRecommendedSpawnPoints mock_sdk_no_spawn_points = Inr [] \<and>
   snd (main [''program''] mock_sdk_no_spawn_points) = Returned 1 \<and>
   spawns (fst (main [''program''] mock_sdk_no_spawn_points)) = []"
proof -
  have f: "snd (find_vehicle_bp s) = Inr (Pointer owned_by_blueprint_library (ActorBlueprint ''vehicle.tesla.model3''))"
    if "Find s = Find mock_sdk" for s
    using that by (simp add: find_vehicle_bp_def snd_bnd mock_sdk_def)
  have g: "GetRecommendedSpawnPoints mock_sdk = Inr [origin]"
    by (simp add: mock_sdk_def)
  have c: "snd (connect (mock_sdk\<lparr>GetRecommendedSpawnPoints := Inr []\<rparr>) ''localhost'' 2000) = Inr ()"
    by (rule connect_mock) simp_all
  note 1 = spawn_point_selection [of mock_sdk "[origin]" "[''program'']" "''localhost''" 2000
      "Pointer owned_by_blueprint_library (ActorBlueprint ''vehicle.tesla.model3'')"]
  note 2 = spawn_point_selection [of "mock_sdk\<lparr>GetRecommendedSpawnPoints := Inr []\<rparr>" "[]"
      "[''program'']" "''localhost''" 2000 "Pointer owned_by_blueprint_library (ActorBlueprint ''vehicle.tesla.model3'')"]
  from 1 g have a: "snd (get_spawn_point mock_sdk) = Inr origin" by simp
  from 1 mock_sdk_completes g
  have b: "\<exists>bp. spawns (fst (main [''program''] mock_sdk)) = [(bp, origin)]"
    by auto
  from 2 parse_args_program c f [of "mock_sdk\<lparr>GetRecommendedSpawnPoints := Inr []\<rparr>"]
  have d: "snd (main [''program''] (mock_sdk\<lparr>GetRecommendedSpawnPoints := Inr []\<rparr>)) = Returned 1 \<and>
    spawns (fst (main [''program''] (mock_sdk\<lparr>GetRecommendedSpawnPoints := Inr []\<rparr>))) = []"
    by simp
  from a b d mock_sdk_completes show ?thesis by (simp add: mock_sdk_no_spawn_points_def)
qed

subsection \<open>C10: the two resource-absence paths\<close>

text \<open>
  Claim C10. On the two resource-absence paths (the filter \<open>vehicle.*\<close> returns nothing
  after the lookup returned nothing, or the list of recommended spawn points is empty) the
  program returns 1 from \<open>main\<close>. A run that returns from \<open>main\<close> has status 1, is on one
  of these two paths, and has issued no call that changes the remote world: no spawn
  request, no control message, no spectator placement, no destruction. Its last action is
  its only line on stderr; the line starts with \<open>Error:\<close>, not with \<open>Error occurred:\<close>,
  so it is written directly and not by the exception handler.
\<close>

theorem resource_absence_paths:
  "(parse_args argv = ([], Inr (host, port)) \<and> snd (connect s host port) = Inr () \<and>
    (Find s ''vehicle.tesla.model3'' = Inr None \<and> Filter s ''vehicle.*'' = Inr [] \<or>
     snd (find_vehicle_bp s) = Inr bp \<and> GetRecommendedSpawnPoints s = Inr []) \<longrightarrow>
      snd (main argv s) = Returned 1) \<and>
   (snd (main argv s) = Returned n \<longrightarrow>
      n = 1 \<and>
      filter modifies_world (fst (main argv s)) = [] \<and>
      controls (fst (main argv s)) = [] \<and> spawns (fst (main argv s)) = [] \<and>
      (\<exists>log d. fst (main argv s) = log @ [Stderr d] \<and> stderr_lines log = [] \<and>
         prefix ''Error:'' d \<and> \<not> prefix ''Error occurred:'' d \<and>
         (Find s ''vehicle.tesla.model3'' = Inr None \<and> Filter s ''vehicle.*'' = Inr [] \<and>
            d = ''Error: No vehicle blueprints found''
          \<or> (\<exists>b. snd (find_vehicle_bp s) = Inr b) \<and> GetRecommendedSpawnPoints s = Inr [] \<and>
            d = ''Error: No spawn points found'')))"
proof (intro conjI impI)
  assume a: "parse_args argv = ([], Inr (host, port)) \<and> snd (connect s host port) = Inr () \<and>
    (Find s ''vehicle.tesla.model3'' = Inr None \<and> Filter s ''vehicle.*'' = Inr [] \<or>
     snd (find_vehicle_bp s) = Inr bp \<and> GetRecommendedSpawnPoints s = Inr [])"
  then show "snd (main argv s) = Returned 1"
    using returns_when_no_blueprint [of argv host port s]
      returns_when_no_spawn_point [of argv host port s bp] by blast
next
  assume r: "snd (main argv s) = Returned n"
  from returned_run [OF r] show "n = 1" by simp
  from returned_run_shape [OF r] obtain log d where
    t: "fst (main argv s) = log @ [Stderr d]" and
    q: "list_all quiet log" and w: "filter modifies_world log = []" and
    d: "Find s ''vehicle.tesla.model3'' = Inr None \<and> Filter s ''vehicle.*'' = Inr [] \<and>
        d = ''Error: No vehicle blueprints found''
      \<or> (\<exists>b. snd (find_vehicle_bp s) = Inr b) \<and> GetRecommendedSpawnPoints s = Inr [] \<and>
        d = ''Error: No spawn points found''"
    by blast
  from t w show mw: "filter modifies_world (fst (main argv s)) = []" by simp
  from filter_modifies_world_controls [OF mw] show "controls (fst (main argv s)) = []" .
  from filter_modifies_world_spawns [OF mw] show "spawns (fst (main argv s)) = []" .
  from d have p: "prefix ''Error:'' d \<and> \<not> prefix ''Error occurred:'' d" by auto
  from t quiet_stderr_lines [OF q] p d
  show "\<exists>log d. fst (main argv s) = log @ [Stderr d] \<and> stderr_lines log = [] \<and>
         prefix ''Error:'' d \<and> \<not> prefix ''Error occurred:'' d \<and>
         (Find s ''vehicle.tesla.model3'' = Inr None \<and> Filter s ''vehicle.*'' = Inr [] \<and>
            d = ''Error: No vehicle blueprints found''
          \<or> (\<exists>b. snd (find_vehicle_bp s) = Inr b) \<and> GetRecommendedSpawnPoints s = Inr [] \<and>
            d = ''Error: No spawn points found'')"
    by blast
qed

theorem resource_absence_paths_witness:
  "parse_args [''program''] = ([], Inr (''localhost'', 2000)) \<and>
   GetRecommendedSpawnPoints mock_sdk_no_spawn_points = Inr [] \<and>
   snd (main [''program''] mock_sdk_no_spawn_points) = Returned 1 \<and>
   filter modifies_world (fst (main [''program''] mock_sdk_no_spawn_points)) = [] \<and>
   controls (fst (main [''program''] mock_sdk_no_spawn_points)) = []"
proof -
  have f: "snd (find_vehicle_bp (mock_sdk\<lparr>GetRecommendedSpawnPoints := Inr []\<rparr>)) =
      Inr (Pointer owned_by_blueprint_library (ActorBlueprint ''vehicle.tesla.model3''))"
    by (simp add: find_vehicle_bp_def snd_bnd mock_sdk_def)
  have c: "snd (connect (mock_sdk\<lparr>GetRecommendedSpawnPoints := Inr []\<rparr>) ''localhost'' 2000) = Inr ()"
    by (rule connect_mock) simp_all
  note 1 = resource_absence_paths [of "[''program'']" "''localhost''" 2000
      "mock_sdk\<lparr>GetRecommendedSpawnPoints := Inr []\<rparr>" "Pointer owned_by_blueprint_library (ActorBlueprint ''vehicle.tesla.model3'')" 1]
  from 1 parse_args_program c f
  have r: "snd (main [''program''] (mock_sdk\<lparr>GetRecommendedSpawnPoints := Inr []\<rparr>)) = Returned 1"
    by simp
  with 1 parse_args_program show ?thesis by (simp add: mock_sdk_no_spawn_points_def)
qed

end
